theory Spec2Isabelle
  imports Main "HOL-Library.Word"
begin

unbundle bit_operations_syntax

section \<open>Machine types and return codes\<close>

type_synonym u8 = "8 word"
type_synonym u16 = "16 word"
type_synonym u32 = "32 word"

text \<open>
  The C functions return an \<open>int\<close> that is zero on success and otherwise one of the
  enumerators of \<open>wolfhsm/wh_error.h\<close> or a code handed up from wolfCrypt or the NVM
  layer. The header is not among the sources, so the numeric values are unknown; the
  enumeration is modelled as a datatype, which makes the named codes pairwise different
  and different from zero, as C enumerators used as \<open>case\<close>-like alternatives are.
  \<open>WH_ERROR_OK\<close> is the value 0 (the code also writes it as
  \<open>WOLFHSM_SHE_ERC_NO_ERROR\<close>); \<open>RC_OTHER n\<close> stands for any other non-zero code.
\<close>

datatype wh_rc =
    WH_ERROR_OK
  | WH_ERROR_BADARGS
  | WH_ERROR_NOTREADY
  | WH_ERROR_NOTFOUND
  | WH_SHE_ERC_SEQUENCE_ERROR
  | WH_SHE_ERC_KEY_NOT_AVAILABLE
  | WH_SHE_ERC_KEY_INVALID
  | WH_SHE_ERC_KEY_EMPTY
  | WH_SHE_ERC_NO_SECURE_BOOT
  | WH_SHE_ERC_WRITE_PROTECTED
  | WH_SHE_ERC_KEY_UPDATE_ERROR
  | WH_SHE_ERC_RNG_SEED
  | WH_SHE_ERC_NO_DEBUGGING
  | WH_SHE_ERC_BUSY
  | WH_SHE_ERC_MEMORY_FAILURE
  | WH_SHE_ERC_GENERAL_ERROR
  | RC_OTHER int

abbreviation (input) WOLFHSM_SHE_ERC_NO_ERROR :: wh_rc where
  "WOLFHSM_SHE_ERC_NO_ERROR \<equiv> WH_ERROR_OK"

text \<open>
  \<open>memcpy(dst, src, n)\<close> on buffers held as byte lists: the first \<open>n\<close> bytes of
  \<open>dst\<close> are replaced by the first \<open>n\<close> bytes of \<open>src\<close>. In C both buffers must
  hold at least \<open>n\<close> bytes (anything else is undefined behaviour); the theorems
  below state that bound where they need it.
\<close>

definition memcpy :: "u8 list \<Rightarrow> u8 list \<Rightarrow> nat \<Rightarrow> u8 list" where
  "memcpy dst src n = take n src @ drop n dst"

section \<open>Shared-memory transport (src/wh_transport_mem.c)\<close>

text \<open>
  \<open>union whTransportMemCsr_t\<close>: the code reads and writes a CSR as one 64-bit value
  and looks only at the fields of its struct view, so the CSR is a record of the four
  16-bit fields.
\<close>

record whShmbufferCsr =
  notify :: u16
  len :: u16
  ack :: u16
  wait :: u16

text \<open>
  The two externally owned buffers: each is a CSR followed by its payload region
  (\<open>req_data = req + 1\<close>, \<open>resp_data = resp + 1\<close>). A client context and a server
  context point at the same two buffers, so the buffers are one value that every
  operation receives and returns.
\<close>

record shmbuf =
  req :: whShmbufferCsr
  req_data :: "u8 list"
  resp :: whShmbufferCsr
  resp_data :: "u8 list"

text \<open>
  \<open>whTransportMemContext\<close> without its buffer pointers. A pointer argument is an
  \<open>option\<close>: \<open>None\<close> is \<open>NULL\<close>.
\<close>

record whTransportMemContext =
  req_size :: u16
  resp_size :: u16
  initialized :: int

record whTransportMemConfig =
  cfg_req :: "unit option"
  cfg_req_size :: u16
  cfg_resp :: "unit option"
  cfg_resp_size :: u16

definition wh_TransportMem_Init ::
  "whTransportMemContext option \<Rightarrow> whTransportMemConfig option \<Rightarrow>
   wh_rc \<times> whTransportMemContext option" where
  "wh_TransportMem_Init c cf =
     (case c of
        None \<Rightarrow> (WH_ERROR_BADARGS, c)
      | Some context \<Rightarrow>
          (case cf of
             None \<Rightarrow> (WH_ERROR_BADARGS, c)
           | Some config \<Rightarrow>
               if cfg_req config = None \<or> cfg_req_size config = 0 \<or>
                  cfg_resp config = None \<or> cfg_resp_size config = 0
               then (WH_ERROR_BADARGS, c)
               else (WH_ERROR_OK,
                     Some \<lparr> req_size = cfg_req_size config,
                            resp_size = cfg_resp_size config,
                            initialized = 1 \<rparr>)))"

text \<open>
  \<open>memset(p, 0, n)\<close> on the buffers of the transport. On a payload region it
  zeroes the first \<open>n\<close> bytes. On a CSR it zeroes the first \<open>n\<close> of the eight
  bytes of the union, whose struct view has \<open>notify\<close> in the bytes 0 and 1, \<open>len\<close>
  in 2 and 3, \<open>ack\<close> in 4 and 5 and \<open>wait\<close> in 6 and 7: a field of which both
  bytes are covered becomes 0, and a field of which only the first byte is covered
  loses its low-order byte on a little-endian host and its high-order byte on a
  big-endian one.
\<close>

definition memset0 :: "nat \<Rightarrow> u8 list \<Rightarrow> u8 list" where
  "memset0 n b = replicate (min n (length b)) 0 @ drop n b"

definition memset0_u16 :: "bool \<Rightarrow> nat \<Rightarrow> u16 \<Rightarrow> u16" where
  "memset0_u16 big_endian n w =
     (if 2 \<le> n then 0
      else if n = 1 then (if big_endian then w AND 0x00FF else w AND 0xFF00)
      else w)"

definition memset0_csr :: "bool \<Rightarrow> nat \<Rightarrow> whShmbufferCsr \<Rightarrow> whShmbufferCsr" where
  "memset0_csr big_endian n c =
     \<lparr> notify = memset0_u16 big_endian n (notify c),
       len = memset0_u16 big_endian (n - 2) (len c),
       ack = memset0_u16 big_endian (n - 4) (ack c),
       wait = memset0_u16 big_endian (n - 6) (wait c) \<rparr>"

text \<open>
  \<open>wh_TransportMem_InitClear\<close> (the client's \<open>Init\<close>): after a successful
  \<open>Init\<close> the code zeroes \<open>req_size\<close> bytes from the start of the request buffer
  and \<open>resp_size\<close> bytes from the start of the response buffer, that is, of each
  buffer the CSR (or the part of it that the size covers) and the bytes of the
  payload region that the size covers beyond the eight bytes of the CSR.
  \<open>big_endian\<close> is the byte order of the host.
\<close>

definition wh_TransportMem_InitClear ::
  "bool \<Rightarrow> whTransportMemContext option \<Rightarrow> whTransportMemConfig option \<Rightarrow> shmbuf \<Rightarrow>
   wh_rc \<times> whTransportMemContext option \<times> shmbuf" where
  "wh_TransportMem_InitClear big_endian c cf m =
     (let r = wh_TransportMem_Init c cf;
          rc = fst r;
          c1 = snd r
      in case c1 of
           None \<Rightarrow> (rc, c1, m)
         | Some context \<Rightarrow>
             if rc = WH_ERROR_OK
             then (rc, c1,
                   \<lparr> req = memset0_csr big_endian (unat (req_size context)) (req m),
                     req_data = memset0 (unat (req_size context) - 8) (req_data m),
                     resp = memset0_csr big_endian (unat (resp_size context)) (resp m),
                     resp_data = memset0 (unat (resp_size context) - 8) (resp_data m) \<rparr>)
             else (rc, c1, m))"

definition wh_TransportMem_Cleanup ::
  "whTransportMemContext option \<Rightarrow> wh_rc \<times> whTransportMemContext option" where
  "wh_TransportMem_Cleanup c =
     (case c of
        None \<Rightarrow> (WH_ERROR_BADARGS, c)
      | Some context \<Rightarrow> (WH_ERROR_OK, Some (context\<lparr> initialized := 0 \<rparr>)))"

text \<open>
  \<open>wh_TransportMem_SendRequest(c, len, data)\<close>: returns the code and the buffers.
\<close>

definition wh_TransportMem_SendRequest ::
  "whTransportMemContext option \<Rightarrow> shmbuf \<Rightarrow> u16 \<Rightarrow> u8 list option \<Rightarrow> wh_rc \<times> shmbuf" where
  "wh_TransportMem_SendRequest c m ln data =
     (case c of
        None \<Rightarrow> (WH_ERROR_BADARGS, m)
      | Some context \<Rightarrow>
          if initialized context = 0 then (WH_ERROR_BADARGS, m)
          else
            let rsp = resp m;
                rq = req m
            in if notify rq \<noteq> notify rsp then (WH_ERROR_NOTREADY, m)
               else
                 let m1 = (case data of
                             None \<Rightarrow> m
                           | Some d \<Rightarrow>
                               if ln \<noteq> 0
                               then m\<lparr> req_data := memcpy (req_data m) d (unat ln) \<rparr>
                               else m);
                     rq1 = rq\<lparr> len := ln \<rparr>;
                     rq2 = rq1\<lparr> notify := notify rq1 + 1 \<rparr>
                 in (WH_ERROR_OK, m1\<lparr> req := rq2 \<rparr>))"

text \<open>
  \<open>wh_TransportMem_RecvRequest(c, out_len, data)\<close>: \<open>out_len\<close> and \<open>data\<close> are the
  caller's variables (\<open>None\<close> for a null pointer); the function returns them as it
  leaves them. It never writes the shared buffers.
\<close>

definition wh_TransportMem_RecvRequest ::
  "whTransportMemContext option \<Rightarrow> shmbuf \<Rightarrow> u16 option \<Rightarrow> u8 list option \<Rightarrow>
   wh_rc \<times> u16 option \<times> u8 list option" where
  "wh_TransportMem_RecvRequest c m out_len data =
     (case c of
        None \<Rightarrow> (WH_ERROR_BADARGS, out_len, data)
      | Some context \<Rightarrow>
          if initialized context = 0 then (WH_ERROR_BADARGS, out_len, data)
          else
            let rq = req m;
                rsp = resp m
            in if notify rq = notify rsp then (WH_ERROR_NOTREADY, out_len, data)
               else
                 let data1 = (case data of
                                None \<Rightarrow> None
                              | Some d \<Rightarrow>
                                  if len rq \<noteq> 0
                                  then Some (memcpy d (req_data m) (unat (len rq)))
                                  else Some d);
                     out_len1 = (case out_len of None \<Rightarrow> None | Some _ \<Rightarrow> Some (len rq))
                 in (WH_ERROR_OK, out_len1, data1))"

definition wh_TransportMem_SendResponse ::
  "whTransportMemContext option \<Rightarrow> shmbuf \<Rightarrow> u16 \<Rightarrow> u8 list option \<Rightarrow> wh_rc \<times> shmbuf" where
  "wh_TransportMem_SendResponse c m ln data =
     (case c of
        None \<Rightarrow> (WH_ERROR_BADARGS, m)
      | Some context \<Rightarrow>
          if initialized context = 0 then (WH_ERROR_BADARGS, m)
          else
            let rq = req m;
                rsp = resp m;
                m1 = (case data of
                        None \<Rightarrow> m
                      | Some d \<Rightarrow>
                          if ln \<noteq> 0
                          then m\<lparr> resp_data := memcpy (resp_data m) d (unat ln) \<rparr>
                          else m);
                rsp1 = rsp\<lparr> len := ln \<rparr>;
                rsp2 = rsp1\<lparr> notify := notify rq \<rparr>
            in (WH_ERROR_OK, m1\<lparr> resp := rsp2 \<rparr>))"

definition wh_TransportMem_RecvResponse ::
  "whTransportMemContext option \<Rightarrow> shmbuf \<Rightarrow> u16 option \<Rightarrow> u8 list option \<Rightarrow>
   wh_rc \<times> u16 option \<times> u8 list option" where
  "wh_TransportMem_RecvResponse c m out_len data =
     (case c of
        None \<Rightarrow> (WH_ERROR_BADARGS, out_len, data)
      | Some context \<Rightarrow>
          if initialized context = 0 then (WH_ERROR_BADARGS, out_len, data)
          else
            let rq = req m;
                rsp = resp m
            in if notify rsp \<noteq> notify rq then (WH_ERROR_NOTREADY, out_len, data)
               else
                 let data1 = (case data of
                                None \<Rightarrow> None
                              | Some d \<Rightarrow>
                                  if len rsp \<noteq> 0
                                  then Some (memcpy d (resp_data m) (unat (len rsp)))
                                  else Some d);
                     out_len1 = (case out_len of None \<Rightarrow> None | Some _ \<Rightarrow> Some (len rsp))
                 in (WH_ERROR_OK, out_len1, data1))"

section \<open>SHE protocol engine (src/wh_server_she.c): what the file takes from outside\<close>

subsection \<open>Constants of headers that are not among the sources\<close>

text \<open>
  Modelled from the spec: the lengths below are macros of headers that are not among
  the sources. The spec fixes them: every SHE key is exactly 16 bytes, the UID has 15
  bytes, \<open>M1\<close> has 16 bytes, the secure-boot prefix is 12 zero bytes; the AES block
  has 16 bytes.
\<close>

definition AES_BLOCK_SIZE :: nat where "AES_BLOCK_SIZE = 16"
definition WOLFHSM_SHE_KEY_SZ :: nat where "WOLFHSM_SHE_KEY_SZ = 16"
definition WOLFHSM_SHE_UID_SZ :: nat where "WOLFHSM_SHE_UID_SZ = 15"
definition WOLFHSM_SHE_M1_SZ :: nat where "WOLFHSM_SHE_M1_SZ = 16"
definition WOLFHSM_SHE_BOOT_MAC_PREFIX_LEN :: nat where "WOLFHSM_SHE_BOOT_MAC_PREFIX_LEN = 12"

text \<open>
  Modelled from the spec: the action codes are enumerators of a header that is not
  among the sources. The spec calls them a dense numeric enumeration and lists them in
  this order; they are numbered from 0, as a C enumeration is. The source writes some
  of them with the prefix \<open>WOLFHSM_SHE_\<close> in the sequencing gate and with the prefix
  \<open>WH_SHE_\<close> in the \<open>switch\<close>; the spec knows one code per action, so both
  spellings are the same constant here.
\<close>

definition WH_SHE_SET_UID :: u16 where "WH_SHE_SET_UID = 0"
definition WH_SHE_SECURE_BOOT_INIT :: u16 where "WH_SHE_SECURE_BOOT_INIT = 1"
definition WH_SHE_SECURE_BOOT_UPDATE :: u16 where "WH_SHE_SECURE_BOOT_UPDATE = 2"
definition WH_SHE_SECURE_BOOT_FINISH :: u16 where "WH_SHE_SECURE_BOOT_FINISH = 3"
definition WH_SHE_GET_STATUS :: u16 where "WH_SHE_GET_STATUS = 4"
definition WH_SHE_LOAD_KEY :: u16 where "WH_SHE_LOAD_KEY = 5"
definition WH_SHE_LOAD_PLAIN_KEY :: u16 where "WH_SHE_LOAD_PLAIN_KEY = 6"
definition WH_SHE_EXPORT_RAM_KEY :: u16 where "WH_SHE_EXPORT_RAM_KEY = 7"
definition WH_SHE_INIT_RND :: u16 where "WH_SHE_INIT_RND = 8"
definition WH_SHE_RND :: u16 where "WH_SHE_RND = 9"
definition WH_SHE_EXTEND_SEED :: u16 where "WH_SHE_EXTEND_SEED = 10"
definition WH_SHE_ENC_ECB :: u16 where "WH_SHE_ENC_ECB = 11"
definition WH_SHE_ENC_CBC :: u16 where "WH_SHE_ENC_CBC = 12"
definition WH_SHE_DEC_ECB :: u16 where "WH_SHE_DEC_ECB = 13"
definition WH_SHE_DEC_CBC :: u16 where "WH_SHE_DEC_CBC = 14"

definition she_actions :: "u16 list" where
  "she_actions =
     [WH_SHE_SET_UID, WH_SHE_SECURE_BOOT_INIT, WH_SHE_SECURE_BOOT_UPDATE,
      WH_SHE_SECURE_BOOT_FINISH, WH_SHE_GET_STATUS, WH_SHE_LOAD_KEY,
      WH_SHE_LOAD_PLAIN_KEY, WH_SHE_EXPORT_RAM_KEY, WH_SHE_INIT_RND, WH_SHE_RND,
      WH_SHE_EXTEND_SEED, WH_SHE_ENC_ECB, WH_SHE_ENC_CBC, WH_SHE_DEC_ECB,
      WH_SHE_DEC_CBC]"

text \<open>
  Modelled from the spec: \<open>MAKE_WOLFHSM_KEYID(type, client, slot)\<close> and the masks
  are macros of a header that is not among the sources. The spec describes the
  identifier as the packed triple of key type, client id and slot id, from which
  \<open>id & SLOT_MASK\<close> recovers the slot; the identifier is the triple itself here, and
  \<open>key_slot\<close> is \<open>id & WOLFHSM_KEYID_MASK\<close>.
\<close>

datatype she_keytype = WOLFHSM_KEYTYPE_SHE

datatype whKeyId = MAKE_WOLFHSM_KEYID (key_type: she_keytype) (key_user: u16) (key_slot: u16)

text \<open>
  \<open>whNvmMetadata\<close> with the SHE label (\<open>whSheMetadata\<close>: \<open>count\<close> and
  \<open>flags\<close>) that the code reads and writes through \<open>meta->label\<close>.
\<close>

record whNvmMetadata =
  meta_id :: whKeyId
  meta_len :: u32
  label_count :: u32
  label_flags :: u32

subsection \<open>The crypto provider, the keystore and the platform\<close>

datatype aes_dir = AES_ENCRYPTION | AES_DECRYPTION

text \<open>
  \<open>Cmac\<close>: the state of the global \<open>sheCmac\<close>, which lives across the requests of
  one secure-boot sequence: the key it was initialised with and the bytes fed so far.
\<close>

record Cmac =
  cmac_key :: "u8 list"
  cmac_data :: "u8 list"

text \<open>
  Everything the file calls but does not define is a field of the environment \<open>E\<close>:
  \<^item> wolfCrypt (\<open>wc_...\<close>): each call gives its return code and, where it computes
    something, its output. The AES context \<open>sheAes\<close> is initialised, keyed, used and
    freed inside one handler, so a cipher call is given the key and IV that the handler
    set (\<open>None\<close> is the \<open>NULL\<close> IV, which wolfCrypt reads as zero).
  \<^item> the keystore of a server with keystore state \<open>'ks\<close>, with the contract of the
    spec: \<open>hsmReadKey\<close> (id, the capacity \<open>*outSz\<close>) gives a code, the object's
    metadata, its bytes and the new \<open>*outSz\<close>, and the caller's variables change only
    when the code is 0; \<open>wh_Nvm_AddObject\<close> and \<open>hsmCacheKey\<close> give a code and the
    new keystore.
  \<^item> constants of absent headers whose values the spec does not give: the two flag
    bits, the reserved slot ids, the status-register bits, the sizes of the packet
    structs.
  \<^item> the platform: the byte order of the host (which decides what \<open>ntohl\<close>,
    \<open>htonl\<close> and a 32-bit access to a byte buffer do), and the contents of the
    uninitialised local \<open>meta\<close> of \<open>hsmSheLoadKey\<close>, which the function can read
    before anything wrote it.
\<close>

record 'ks she_env =
  wc_AesInit :: wh_rc
  wc_AesSetKey :: "u8 list \<Rightarrow> u8 list option \<Rightarrow> aes_dir \<Rightarrow> wh_rc"
  wc_AesSetKeyDirect :: "u8 list \<Rightarrow> aes_dir \<Rightarrow> wh_rc"
  wc_AesEncryptDirect :: "u8 list \<Rightarrow> u8 list \<Rightarrow> wh_rc \<times> u8 list"
  wc_AesCbcEncrypt :: "u8 list \<Rightarrow> u8 list option \<Rightarrow> u8 list \<Rightarrow> wh_rc \<times> u8 list"
  wc_AesCbcDecrypt :: "u8 list \<Rightarrow> u8 list option \<Rightarrow> u8 list \<Rightarrow> wh_rc \<times> u8 list"
  wc_AesEcbEncrypt :: "u8 list \<Rightarrow> u8 list \<Rightarrow> wh_rc \<times> u8 list"
  wc_AesEcbDecrypt :: "u8 list \<Rightarrow> u8 list \<Rightarrow> wh_rc \<times> u8 list"
  wc_InitCmac_ex :: "u8 list \<Rightarrow> wh_rc"
  wc_CmacUpdate :: "Cmac \<Rightarrow> u8 list \<Rightarrow> wh_rc"
  wc_CmacFinal :: "Cmac \<Rightarrow> wh_rc \<times> u8 list"
  hsmReadKey :: "'ks \<Rightarrow> whKeyId \<Rightarrow> u32 \<Rightarrow> wh_rc \<times> whNvmMetadata \<times> u8 list \<times> u32"
  wh_Nvm_AddObject :: "'ks \<Rightarrow> whNvmMetadata \<Rightarrow> u32 \<Rightarrow> u8 list \<Rightarrow> wh_rc \<times> 'ks"
  hsmCacheKey :: "'ks \<Rightarrow> whNvmMetadata \<Rightarrow> u8 list \<Rightarrow> wh_rc \<times> 'ks"
  WOLFHSM_SHE_FLAG_WRITE_PROTECT :: u32
  WOLFHSM_SHE_FLAG_WILDCARD :: u32
  WOLFHSM_SHE_SECRET_KEY_ID :: u16
  WOLFHSM_SHE_BOOT_MAC_KEY_ID :: u16
  WOLFHSM_SHE_BOOT_MAC :: u16
  WOLFHSM_SHE_RAM_KEY_ID :: u16
  WOLFHSM_SHE_PRNG_SEED_ID :: u16
  WOLFHSM_SHE_SREG_SECURE_BOOT :: u8
  WOLFHSM_SHE_SREG_BOOT_FINISHED :: u8
  WOLFHSM_SHE_SREG_BOOT_OK :: u8
  WOLFHSM_SHE_SREG_RND_INIT :: u8
  WOLFHSM_PACKET_STUB_SIZE :: u16
  sizeof_res :: "u16 \<Rightarrow> u16"
  sizeof_rc :: u16
  host_big_endian :: bool
  uninit_meta :: whNvmMetadata

subsection \<open>32-bit accesses and byte order\<close>

text \<open>
  \<open>*(uint32_t* )p\<close> on a byte buffer reads and writes four bytes in the byte order
  of the host; \<open>ntohl\<close> and \<open>htonl\<close> are the identity on a big-endian host and
  reverse the four bytes on a little-endian one.
\<close>

definition be_u32 :: "u8 list \<Rightarrow> u32" where
  "be_u32 b = push_bit 24 (ucast (b ! 0)) OR push_bit 16 (ucast (b ! 1)) OR
              push_bit 8 (ucast (b ! 2)) OR ucast (b ! 3)"

definition u32_be_bytes :: "u32 \<Rightarrow> u8 list" where
  "u32_be_bytes w = [ucast (drop_bit 24 w), ucast (drop_bit 16 w), ucast (drop_bit 8 w), ucast w]"

definition load_u32 :: "'ks she_env \<Rightarrow> u8 list \<Rightarrow> u32" where
  "load_u32 E b = (if host_big_endian E then be_u32 b else be_u32 (rev (take 4 b)))"

definition store_u32 :: "'ks she_env \<Rightarrow> u32 \<Rightarrow> u8 list" where
  "store_u32 E w = (if host_big_endian E then u32_be_bytes w else rev (u32_be_bytes w))"

definition bswap32 :: "u32 \<Rightarrow> u32" where
  "bswap32 w = be_u32 (rev (u32_be_bytes w))"

definition ntohl :: "'ks she_env \<Rightarrow> u32 \<Rightarrow> u32" where
  "ntohl E w = (if host_big_endian E then w else bswap32 w)"

definition htonl :: "'ks she_env \<Rightarrow> u32 \<Rightarrow> u32" where
  "htonl E w = (if host_big_endian E then w else bswap32 w)"

section \<open>SHE protocol engine: state\<close>

datatype WOLFHSM_SHE_SB_STATE =
    WOLFHSM_SHE_SB_INIT
  | WOLFHSM_SHE_SB_UPDATE
  | WOLFHSM_SHE_SB_FINISH
  | WOLFHSM_SHE_SB_SUCCESS
  | WOLFHSM_SHE_SB_FAILURE

text \<open>The file-level variables of \<open>wh_server_she.c\<close>.\<close>

record she_globals =
  WOLFHSM_SHE_PRNG_KEY :: "u8 list"
  hsmShePrngState :: "u8 list"
  hsmSheSbState :: WOLFHSM_SHE_SB_STATE
  hsmSheCmacKeyFound :: u8
  hsmSheRamKeyPlain :: u8
  hsmSheUidSet :: u8
  hsmSheBlSize :: u32
  hsmSheBlSizeReceived :: u32
  hsmSheRndInited :: u32
  sheCmac :: Cmac

text \<open>The value of the variables at process start.\<close>

definition she_globals_init :: she_globals where
  "she_globals_init =
     \<lparr> WOLFHSM_SHE_PRNG_KEY = replicate 16 0,
       hsmShePrngState = replicate 16 0,
       hsmSheSbState = WOLFHSM_SHE_SB_INIT,
       hsmSheCmacKeyFound = 0,
       hsmSheRamKeyPlain = 0,
       hsmSheUidSet = 0,
       hsmSheBlSize = 0,
       hsmSheBlSizeReceived = 0,
       hsmSheRndInited = 0,
       sheCmac = \<lparr> cmac_key = [], cmac_data = [] \<rparr> \<rparr>"

text \<open>
  The fields of \<open>whServerContext\<close> that the file uses: \<open>server->sheUid\<close>,
  \<open>server->comm->client_id\<close>, and the keystore (\<open>server->nvm\<close> and the key cache).
\<close>

record 'ks whServerContext =
  sheUid :: "u8 list"
  client_id :: u16
  keystore :: 'ks

text \<open>
  \<open>whPacket\<close>: the header field \<open>rc\<close> and the members of the body union that the
  file uses, each member's fields under the member's name. A handler reads only the
  request struct of its own action and writes only its response struct, so the members
  are separate fields; the one overlay the code relies on, the request
  \<open>M1 | M2 | M3\<close> and the response \<open>M4 | M5\<close> of \<open>LOAD_KEY\<close> in the same bytes,
  is kept: \<open>sheLoadKey\<close> is that byte range. Data that follows a fixed struct
  (\<open>(uint8_t* )(&req + 1)\<close>) is the field \<open>..._in\<close> or \<open>..._out\<close>.
\<close>

record whPacket =
  rc :: wh_rc
  sheSetUidReq_uid :: "u8 list"
  sheSecureBootInitReq_sz :: u32
  sheSecureBootInitRes_status :: wh_rc
  sheSecureBootUpdateReq_sz :: u32
  sheSecureBootUpdateReq_in :: "u8 list"
  sheSecureBootUpdateRes_status :: wh_rc
  sheSecureBootFinishRes_status :: wh_rc
  sheGetStatusRes_sreg :: u8
  sheLoadKey :: "u8 list"
  sheLoadPlainKeyReq_key :: "u8 list"
  sheExportRamKeyRes_messageOne :: "u8 list"
  sheExportRamKeyRes_messageTwo :: "u8 list"
  sheExportRamKeyRes_messageThree :: "u8 list"
  sheExportRamKeyRes_messageFour :: "u8 list"
  sheExportRamKeyRes_messageFive :: "u8 list"
  sheInitRngRes_status :: wh_rc
  sheRndRes_rnd :: "u8 list"
  sheExtendSeedReq_entropy :: "u8 list"
  sheExtendSeedRes_status :: wh_rc
  sheEncEcbReq_sz :: u32
  sheEncEcbReq_keyId :: u8
  sheEncEcbReq_in :: "u8 list"
  sheEncEcbRes_sz :: u32
  sheEncEcbRes_out :: "u8 list"
  sheEncCbcReq_sz :: u32
  sheEncCbcReq_keyId :: u8
  sheEncCbcReq_iv :: "u8 list"
  sheEncCbcReq_in :: "u8 list"
  sheEncCbcRes_out :: "u8 list"
  sheDecEcbReq_sz :: u32
  sheDecEcbReq_keyId :: u8
  sheDecEcbReq_in :: "u8 list"
  sheDecEcbRes_sz :: u32
  sheDecEcbRes_out :: "u8 list"
  sheDecCbcReq_sz :: u32
  sheDecCbcReq_keyId :: u8
  sheDecCbcReq_iv :: "u8 list"
  sheDecCbcReq_in :: "u8 list"
  sheDecCbcRes_sz :: u32
  sheDecCbcRes_out :: "u8 list"

text \<open>The members of \<open>sheLoadKeyReq\<close> and \<open>sheLoadKeyRes\<close> in the shared byte range.\<close>

definition messageOne :: "u8 list \<Rightarrow> u8 list" where "messageOne b = take 16 b"
definition messageTwo :: "u8 list \<Rightarrow> u8 list" where "messageTwo b = take 32 (drop 16 b)"
definition messageThree :: "u8 list \<Rightarrow> u8 list" where "messageThree b = take 16 (drop 48 b)"
definition messageFour :: "u8 list \<Rightarrow> u8 list" where "messageFour b = take 32 b"
definition messageFive :: "u8 list \<Rightarrow> u8 list" where "messageFive b = take 16 (drop 32 b)"

text \<open>
  \<open>blit b off src\<close>: the bytes \<open>src\<close> written into \<open>b\<close> at offset \<open>off\<close>
  (\<open>memcpy(b + off, src, length src)\<close>, or the output of a call that writes
  \<open>length src\<close> bytes there).
\<close>

definition blit :: "u8 list \<Rightarrow> nat \<Rightarrow> u8 list \<Rightarrow> u8 list" where
  "blit b off src = take off b @ src @ drop (off + length src) b"

section \<open>SHE protocol engine: helpers\<close>

text \<open>
  \<open>XMEMEQZERO(buffer, size)\<close>: the loop runs while \<open>size > 1\<close> and looks at
  \<open>buffer[size]\<close> after the decrement.
\<close>

function XMEMEQZERO :: "u8 list \<Rightarrow> u32 \<Rightarrow> int" where
  "XMEMEQZERO buffer sz =
     (if sz > 1
      then (if buffer ! unat (sz - 1) \<noteq> 0 then 0 else XMEMEQZERO buffer (sz - 1))
      else 1)"
  by pat_completeness auto
termination
  by (relation "measure (\<lambda>(buffer, sz). unat sz)")
     (auto simp: unat_sub word_le_nat_alt word_less_nat_alt)

definition hsmShePopAuthId :: "u8 list \<Rightarrow> u16" where
  "hsmShePopAuthId m1 = ucast ((m1 ! (WOLFHSM_SHE_M1_SZ - 1)) AND 0x0f)"

definition hsmShePopId :: "u8 list \<Rightarrow> u16" where
  "hsmShePopId m1 = ucast (drop_bit 4 ((m1 ! (WOLFHSM_SHE_M1_SZ - 1)) AND 0xf0))"

definition hsmShePopFlags :: "u8 list \<Rightarrow> u32" where
  "hsmShePopFlags m2 =
     push_bit 4 (ucast ((m2 ! 3) AND 0x0f)) OR
     drop_bit 7 (ucast ((m2 ! 4) AND 0x80))"

section \<open>AES-MP16 (\<open>wh_AesMp16\<close>)\<close>

text \<open>The largest value of the C type \<open>int\<close> (32 bits).\<close>

definition INT_MAX :: int where
  "INT_MAX = 2147483647"

text \<open>
  The body of the \<open>while\<close> loop of \<open>wh_AesMp16\<close>. It is entered with \<open>ret = 0\<close>;
  \<open>inSz\<close> is \<open>(int)inSz\<close> and \<open>i\<close> the \<open>int\<close> index, \<open>key\<close> the key that the
  last successful \<open>wc_AesSetKeyDirect\<close> gave \<open>sheAes\<close>. The loop runs on while the
  key of the next block could be set, and otherwise leaves with the failing code.
  After a block the code adds 16 to \<open>i\<close>; when the sum passes \<open>INT_MAX\<close> the
  signed addition overflows, the C program has no defined behaviour from there, and
  the result is \<open>None\<close>. That happens for the fifteen lengths from \<open>2^31 - 15\<close> to
  \<open>2^31 - 1\<close>, at the last block.
\<close>

function AesMp16_loop ::
  "'ks she_env \<Rightarrow> u8 list \<Rightarrow> int \<Rightarrow> int \<Rightarrow> u8 list \<Rightarrow> u8 list \<Rightarrow> u8 list \<Rightarrow>
   (wh_rc \<times> u8 list) option" where
  "AesMp16_loop E inp inSz i out messageZero key =
     (if i < inSz
      then
        let paddedInput =
              (if inSz - i < int AES_BLOCK_SIZE
               then take (nat (inSz - i)) (drop (nat i) inp) @
                    replicate (AES_BLOCK_SIZE - nat (inSz - i)) 0
               else take AES_BLOCK_SIZE (drop (nat i) inp));
            enc = wc_AesEncryptDirect E key paddedInput;
            out1 = map2 (XOR) (map2 (XOR) (snd enc) paddedInput) messageZero;
            ret = (if fst enc = WH_ERROR_OK then wc_AesSetKeyDirect E out1 AES_ENCRYPTION
                   else fst enc)
        in if ret = WH_ERROR_OK
           then (if INT_MAX < i + int AES_BLOCK_SIZE then None
                 else AesMp16_loop E inp inSz (i + int AES_BLOCK_SIZE) out1 out1 out1)
           else Some (ret, out1)
      else Some (WH_ERROR_OK, out))"
  by pat_completeness auto
termination
  by (relation "measure (\<lambda>(E, inp, inSz, i, out, messageZero, key). nat (inSz - i))")
     (auto simp: AES_BLOCK_SIZE_def)

text \<open>
  \<open>wh_AesMp16(server, in, inSz, out)\<close>: a pointer is an \<open>option\<close>; the result is the
  return code and the buffer \<open>out\<close> as the call leaves it, or \<open>None\<close> where the
  index of the loop overflows.
\<close>

definition wh_AesMp16 ::
  "'ks she_env \<Rightarrow> 'ks whServerContext option \<Rightarrow> u8 list option \<Rightarrow> u32 \<Rightarrow> u8 list option \<Rightarrow>
   (wh_rc \<times> u8 list option) option" where
  "wh_AesMp16 E server inp inSz out =
     (case server of
        None \<Rightarrow> Some (WH_ERROR_BADARGS, out)
      | Some srv \<Rightarrow>
          (case inp of
             None \<Rightarrow> Some (WH_ERROR_BADARGS, out)
           | Some inb \<Rightarrow>
               (case out of
                  None \<Rightarrow> Some (WH_ERROR_BADARGS, out)
                | Some outb \<Rightarrow>
                    if inSz = 0 then Some (WH_ERROR_BADARGS, out)
                    else
                      let messageZero = replicate WOLFHSM_SHE_KEY_SZ 0;
                          ret = wc_AesInit E;
                          ret = (if ret = WH_ERROR_OK
                                 then wc_AesSetKeyDirect E messageZero AES_ENCRYPTION
                                 else ret)
                      in if ret = WH_ERROR_OK
                         then (case AesMp16_loop E inb (sint inSz) 0 outb messageZero messageZero of
                                 None \<Rightarrow> None
                               | Some r \<Rightarrow> Some (fst r, Some (snd r)))
                         else Some (ret, out))))"

text \<open>
  A call \<open>wh_AesMp16(server, in, inSz, out)\<close> from a handler, where no pointer is
  null: the code and the contents of \<open>out\<close>. The handlers pass the length of a key
  read from the keystore plus the 16 bytes of a constant. At a length for which
  \<open>wh_AesMp16\<close> has no defined result the C handler has none either, while its
  model here is a total function: there the call stands for a failed one, which
  leaves \<open>out\<close> as it is and gives the code \<open>RC_OTHER (- 1)\<close>. No theorem below is
  about a handler at such a length.
\<close>

definition call_AesMp16 ::
  "'ks she_env \<Rightarrow> 'ks whServerContext \<Rightarrow> u8 list \<Rightarrow> u32 \<Rightarrow> u8 list \<Rightarrow> wh_rc \<times> u8 list" where
  "call_AesMp16 E server inb inSz outb =
     (case wh_AesMp16 E (Some server) (Some inb) inSz (Some outb) of
        None \<Rightarrow> (RC_OTHER (- 1), outb)
      | Some r \<Rightarrow> (fst r, case snd r of None \<Rightarrow> outb | Some b \<Rightarrow> b))"

text \<open>
  AES-MP16 in the words of the spec: the input is zero-padded to a multiple of 16
  bytes, \<open>H_0 = 0^128\<close>, and for each 16-byte block \<open>B_i\<close> of the padded input
  \<open>H_i = AES_Encrypt(key = H_{i-1}, plaintext = B_i) XOR B_i XOR H_{i-1}\<close>; the result
  is the last \<open>H\<close>.
\<close>

definition zero_pad16 :: "u8 list \<Rightarrow> u8 list" where
  "zero_pad16 M = M @ replicate ((16 - length M mod 16) mod 16) 0"

fun blocks16 :: "u8 list \<Rightarrow> u8 list list" where
  "blocks16 [] = []"
| "blocks16 (x # xs) = take 16 (x # xs) # blocks16 (drop 16 (x # xs))"

fun mp_chain :: "(u8 list \<Rightarrow> u8 list \<Rightarrow> u8 list) \<Rightarrow> u8 list \<Rightarrow> u8 list list \<Rightarrow> u8 list" where
  "mp_chain aes H [] = H"
| "mp_chain aes H (B # Bs) = mp_chain aes (map2 (XOR) (map2 (XOR) (aes H B) B) H) Bs"

definition AES_MP16_spec :: "(u8 list \<Rightarrow> u8 list \<Rightarrow> u8 list) \<Rightarrow> u8 list \<Rightarrow> u8 list" where
  "AES_MP16_spec aes M = mp_chain aes (replicate 16 0) (blocks16 (zero_pad16 M))"

section \<open>SHE protocol engine: the handlers\<close>

text \<open>
  A handler receives the file-level variables \<open>g\<close>, the server context, the packet
  and \<open>*size\<close>, and returns its return code with the four as it leaves them. The
  steps of a handler are the statements of the C function in their order; the value
  of \<open>ret\<close> after a step is a new variable \<open>ret1\<close>, \<open>ret2\<close>, ...
\<close>

type_synonym 'ks she_result = "wh_rc \<times> she_globals \<times> 'ks whServerContext \<times> whPacket \<times> u16"

text \<open>The four results of \<open>hsmReadKey\<close>: code, metadata, bytes, \<open>*outSz\<close>.\<close>

definition rk_rc :: "wh_rc \<times> whNvmMetadata \<times> u8 list \<times> u32 \<Rightarrow> wh_rc" where
  "rk_rc r = fst r"
definition rk_meta :: "wh_rc \<times> whNvmMetadata \<times> u8 list \<times> u32 \<Rightarrow> whNvmMetadata" where
  "rk_meta r = fst (snd r)"
definition rk_data :: "wh_rc \<times> whNvmMetadata \<times> u8 list \<times> u32 \<Rightarrow> u8 list" where
  "rk_data r = fst (snd (snd r))"
definition rk_len :: "wh_rc \<times> whNvmMetadata \<times> u8 list \<times> u32 \<Rightarrow> u32" where
  "rk_len r = snd (snd (snd r))"

definition she_key :: "'ks whServerContext \<Rightarrow> u16 \<Rightarrow> whKeyId" where
  "she_key server slot = MAKE_WOLFHSM_KEYID WOLFHSM_KEYTYPE_SHE (client_id server) slot"

text \<open>
  The calls on the CMAC context: \<open>wc_InitCmac_ex(sheCmac, key, ...)\<close> starts a new
  message under \<open>key\<close>, \<open>wc_CmacUpdate(sheCmac, data, n)\<close> appends \<open>data\<close>; the
  context changes when the call returns 0.
\<close>

definition cmac_init :: "'ks she_env \<Rightarrow> Cmac \<Rightarrow> u8 list \<Rightarrow> wh_rc \<times> Cmac" where
  "cmac_init E cm key =
     (let r = wc_InitCmac_ex E key
      in (r, if r = WH_ERROR_OK then \<lparr> cmac_key = key, cmac_data = [] \<rparr> else cm))"

definition cmac_update :: "'ks she_env \<Rightarrow> Cmac \<Rightarrow> u8 list \<Rightarrow> wh_rc \<times> Cmac" where
  "cmac_update E cm d =
     (let r = wc_CmacUpdate E cm d
      in (r, if r = WH_ERROR_OK then cm\<lparr> cmac_data := cmac_data cm @ d \<rparr> else cm))"

definition hsmSheSetUid ::
  "'ks she_env \<Rightarrow> she_globals \<Rightarrow> 'ks whServerContext \<Rightarrow> whPacket \<Rightarrow> u16 \<Rightarrow> 'ks she_result" where
  "hsmSheSetUid E g server packet sz =
     (let ret = (if hsmSheUidSet g = 1 then WH_SHE_ERC_SEQUENCE_ERROR else WH_ERROR_OK)
      in if ret = WH_ERROR_OK
         then (ret, g\<lparr> hsmSheUidSet := 1 \<rparr>,
               server\<lparr> sheUid := memcpy (sheUid server) (sheSetUidReq_uid packet)
                                    WOLFHSM_SHE_UID_SZ \<rparr>,
               packet, sz)
         else (ret, g, server, packet, sz))"

definition hsmSheSecureBootInit ::
  "'ks she_env \<Rightarrow> she_globals \<Rightarrow> 'ks whServerContext \<Rightarrow> whPacket \<Rightarrow> u16 \<Rightarrow> 'ks she_result" where
  "hsmSheSecureBootInit E g server packet sz =
     (let ret = (if hsmSheSbState g \<noteq> WOLFHSM_SHE_SB_INIT
                 then WH_SHE_ERC_SEQUENCE_ERROR else WH_ERROR_OK);
          g1 = (if ret = WH_ERROR_OK
                then g\<lparr> hsmSheBlSize := sheSecureBootInitReq_sz packet \<rparr> else g);
          rd = hsmReadKey E (keystore server)
                 (she_key server (WOLFHSM_SHE_BOOT_MAC_KEY_ID E)) (of_nat WOLFHSM_SHE_KEY_SZ);
          macKey = (if ret = WH_ERROR_OK \<and> rk_rc rd = WH_ERROR_OK then rk_data rd else []);
          g2 = (if ret = WH_ERROR_OK
                then (if rk_rc rd \<noteq> WH_ERROR_OK
                      then g1\<lparr> hsmSheSbState := WOLFHSM_SHE_SB_SUCCESS,
                               hsmSheCmacKeyFound := 0 \<rparr>
                      else g1\<lparr> hsmSheCmacKeyFound := 1 \<rparr>)
                else g1);
          ret1 = (if ret = WH_ERROR_OK
                  then (if rk_rc rd \<noteq> WH_ERROR_OK then WH_SHE_ERC_NO_SECURE_BOOT
                        else WH_ERROR_OK)
                  else ret);
          ci = cmac_init E (sheCmac g2) (take WOLFHSM_SHE_KEY_SZ macKey);
          ret2 = (if ret1 = WH_ERROR_OK then fst ci else ret1);
          g3 = (if ret1 = WH_ERROR_OK then g2\<lparr> sheCmac := snd ci \<rparr> else g2);
          macKey1 = (if ret2 = WH_ERROR_OK
                     then replicate WOLFHSM_SHE_BOOT_MAC_PREFIX_LEN 0 @
                          drop WOLFHSM_SHE_BOOT_MAC_PREFIX_LEN macKey
                     else macKey);
          cu = cmac_update E (sheCmac g3) (take WOLFHSM_SHE_BOOT_MAC_PREFIX_LEN macKey1);
          ret3 = (if ret2 = WH_ERROR_OK then fst cu else ret2);
          g4 = (if ret2 = WH_ERROR_OK then g3\<lparr> sheCmac := snd cu \<rparr> else g3);
          cv = cmac_update E (sheCmac g4) (store_u32 E (hsmSheBlSize g4));
          ret4 = (if ret3 = WH_ERROR_OK then fst cv else ret3);
          g5 = (if ret3 = WH_ERROR_OK then g4\<lparr> sheCmac := snd cv \<rparr> else g4)
      in if ret4 = WH_ERROR_OK
         then (ret4, g5\<lparr> hsmSheSbState := WOLFHSM_SHE_SB_UPDATE \<rparr>, server,
               packet\<lparr> sheSecureBootInitRes_status := WOLFHSM_SHE_ERC_NO_ERROR \<rparr>,
               WOLFHSM_PACKET_STUB_SIZE E + sizeof_res E WH_SHE_SECURE_BOOT_INIT)
         else (ret4, g5, server, packet, sz))"

definition hsmSheSecureBootUpdate ::
  "'ks she_env \<Rightarrow> she_globals \<Rightarrow> 'ks whServerContext \<Rightarrow> whPacket \<Rightarrow> u16 \<Rightarrow> 'ks she_result" where
  "hsmSheSecureBootUpdate E g server packet sz =
     (let ret = (if hsmSheSbState g \<noteq> WOLFHSM_SHE_SB_UPDATE
                 then WH_SHE_ERC_SEQUENCE_ERROR else WH_ERROR_OK);
          inb = take (unat (sheSecureBootUpdateReq_sz packet)) (sheSecureBootUpdateReq_in packet);
          g1 = (if ret = WH_ERROR_OK
                then g\<lparr> hsmSheBlSizeReceived :=
                          hsmSheBlSizeReceived g + sheSecureBootUpdateReq_sz packet \<rparr>
                else g);
          ret1 = (if ret = WH_ERROR_OK \<and> hsmSheBlSizeReceived g1 > hsmSheBlSize g1
                  then WH_SHE_ERC_SEQUENCE_ERROR else ret);
          cu = cmac_update E (sheCmac g1) inb;
          ret2 = (if ret1 = WH_ERROR_OK then fst cu else ret1);
          g2 = (if ret1 = WH_ERROR_OK then g1\<lparr> sheCmac := snd cu \<rparr> else g1)
      in if ret2 = WH_ERROR_OK
         then (ret2,
               (if hsmSheBlSizeReceived g2 = hsmSheBlSize g2
                then g2\<lparr> hsmSheSbState := WOLFHSM_SHE_SB_FINISH \<rparr> else g2),
               server,
               packet\<lparr> sheSecureBootUpdateRes_status := WOLFHSM_SHE_ERC_NO_ERROR \<rparr>,
               WOLFHSM_PACKET_STUB_SIZE E + sizeof_res E WH_SHE_SECURE_BOOT_UPDATE)
         else (ret2, g2, server, packet, sz))"

text \<open>
  \<open>XMEMCMP(a, b, n) == 0\<close> holds when the first \<open>n\<close> bytes agree.
\<close>

definition hsmSheSecureBootFinish ::
  "'ks she_env \<Rightarrow> she_globals \<Rightarrow> 'ks whServerContext \<Rightarrow> whPacket \<Rightarrow> u16 \<Rightarrow> 'ks she_result" where
  "hsmSheSecureBootFinish E g server packet sz =
     (let ret = (if hsmSheSbState g \<noteq> WOLFHSM_SHE_SB_FINISH
                 then WH_SHE_ERC_SEQUENCE_ERROR else WH_ERROR_OK);
          field = AES_BLOCK_SIZE;
          fin = wc_CmacFinal E (sheCmac g);
          ret1 = (if ret = WH_ERROR_OK then fst fin else ret);
          cmacOutput = snd fin;
          rd = hsmReadKey E (keystore server)
                 (she_key server (WOLFHSM_SHE_BOOT_MAC E)) (of_nat WOLFHSM_SHE_KEY_SZ);
          macDigest = rk_data rd;
          ret2 = (if ret1 = WH_ERROR_OK
                  then (if rk_rc rd \<noteq> WH_ERROR_OK then WH_SHE_ERC_KEY_NOT_AVAILABLE
                        else WH_ERROR_OK)
                  else ret1)
      in if ret2 = WH_ERROR_OK
         then (if take field cmacOutput = take field macDigest
               then (WH_ERROR_OK, g\<lparr> hsmSheSbState := WOLFHSM_SHE_SB_SUCCESS \<rparr>, server,
                     packet\<lparr> sheSecureBootFinishRes_status := WOLFHSM_SHE_ERC_NO_ERROR \<rparr>,
                     WOLFHSM_PACKET_STUB_SIZE E + sizeof_res E WH_SHE_SECURE_BOOT_FINISH)
               else (WH_SHE_ERC_GENERAL_ERROR,
                     g\<lparr> hsmSheSbState := WOLFHSM_SHE_SB_FAILURE \<rparr>, server, packet, sz))
         else (ret2, g, server, packet, sz))"

definition hsmSheGetStatus ::
  "'ks she_env \<Rightarrow> she_globals \<Rightarrow> 'ks whServerContext \<Rightarrow> whPacket \<Rightarrow> u16 \<Rightarrow> 'ks she_result" where
  "hsmSheGetStatus E g server packet sz =
     (let sreg0 = 0;
          sreg1 = (if hsmSheCmacKeyFound g \<noteq> 0
                   then sreg0 OR WOLFHSM_SHE_SREG_SECURE_BOOT E else sreg0);
          sreg2 = (if hsmSheSbState g = WOLFHSM_SHE_SB_SUCCESS \<or>
                      hsmSheSbState g = WOLFHSM_SHE_SB_FAILURE
                   then sreg1 OR WOLFHSM_SHE_SREG_BOOT_FINISHED E else sreg1);
          sreg3 = (if hsmSheSbState g = WOLFHSM_SHE_SB_SUCCESS
                   then sreg2 OR WOLFHSM_SHE_SREG_BOOT_OK E else sreg2);
          sreg4 = (if hsmSheRndInited g = 1
                   then sreg3 OR WOLFHSM_SHE_SREG_RND_INIT E else sreg3)
      in (WH_ERROR_OK, g, server, packet\<lparr> sheGetStatusRes_sreg := sreg4 \<rparr>,
          WOLFHSM_PACKET_STUB_SIZE E + sizeof_res E WH_SHE_GET_STATUS))"

definition hsmSheLoadPlainKey ::
  "'ks she_env \<Rightarrow> she_globals \<Rightarrow> 'ks whServerContext \<Rightarrow> whPacket \<Rightarrow> u16 \<Rightarrow> 'ks she_result" where
  "hsmSheLoadPlainKey E g server packet sz =
     (let meta = \<lparr> meta_id = she_key server (WOLFHSM_SHE_RAM_KEY_ID E),
                   meta_len = of_nat WOLFHSM_SHE_KEY_SZ,
                   label_count = 0, label_flags = 0 \<rparr>;
          ck = hsmCacheKey E (keystore server) meta (sheLoadPlainKeyReq_key packet);
          ret = fst ck;
          server1 = server\<lparr> keystore := snd ck \<rparr>
      in if ret = WH_ERROR_OK
         then (ret, g\<lparr> hsmSheRamKeyPlain := 1 \<rparr>, server1, packet, WOLFHSM_PACKET_STUB_SIZE E)
         else (ret, g, server1, packet, sz))"

definition hsmSheRnd ::
  "'ks she_env \<Rightarrow> she_globals \<Rightarrow> 'ks whServerContext \<Rightarrow> whPacket \<Rightarrow> u16 \<Rightarrow> 'ks she_result" where
  "hsmSheRnd E g server packet sz =
     (let ret = (if hsmSheRndInited g = 0 then WH_SHE_ERC_RNG_SEED else WH_ERROR_OK);
          ret1 = (if ret = WH_ERROR_OK then wc_AesInit E else ret);
          ret2 = (if ret1 = WH_ERROR_OK
                  then wc_AesSetKey E (take WOLFHSM_SHE_KEY_SZ (WOLFHSM_SHE_PRNG_KEY g)) None
                         AES_ENCRYPTION
                  else ret1);
          enc = wc_AesCbcEncrypt E (take WOLFHSM_SHE_KEY_SZ (WOLFHSM_SHE_PRNG_KEY g)) None
                  (take WOLFHSM_SHE_KEY_SZ (hsmShePrngState g));
          ret3 = (if ret2 = WH_ERROR_OK then fst enc else ret2);
          g1 = (if ret2 = WH_ERROR_OK
                then g\<lparr> hsmShePrngState := blit (hsmShePrngState g) 0 (snd enc) \<rparr> else g)
      in if ret3 = WH_ERROR_OK
         then (ret3, g1, server,
               packet\<lparr> sheRndRes_rnd := memcpy (sheRndRes_rnd packet) (hsmShePrngState g1)
                                           WOLFHSM_SHE_KEY_SZ \<rparr>,
               WOLFHSM_PACKET_STUB_SIZE E + sizeof_res E WH_SHE_RND)
         else (ret3, g1, server, packet, sz))"

definition WOLFHSM_SHE_KEY_UPDATE_ENC_C :: "u8 list" where
  "WOLFHSM_SHE_KEY_UPDATE_ENC_C =
     [0x01, 0x01, 0x53, 0x48, 0x45, 0x00, 0x80, 0x00,
      0x00, 0x00, 0x00, 0x00, 0x00, 0x00, 0x00, 0xB0]"

definition WOLFHSM_SHE_KEY_UPDATE_MAC_C :: "u8 list" where
  "WOLFHSM_SHE_KEY_UPDATE_MAC_C =
     [0x01, 0x02, 0x53, 0x48, 0x45, 0x00, 0x80, 0x00,
      0x00, 0x00, 0x00, 0x00, 0x00, 0x00, 0x00, 0xB0]"

definition WOLFHSM_SHE_PRNG_KEY_C :: "u8 list" where
  "WOLFHSM_SHE_PRNG_KEY_C =
     [0x01, 0x04, 0x53, 0x48, 0x45, 0x00, 0x80, 0x00,
      0x00, 0x00, 0x00, 0x00, 0x00, 0x00, 0x00, 0xB0]"

definition WOLFHSM_SHE_PRNG_SEED_KEY_C :: "u8 list" where
  "WOLFHSM_SHE_PRNG_SEED_KEY_C =
     [0x01, 0x05, 0x53, 0x48, 0x45, 0x00, 0x80, 0x00,
      0x00, 0x00, 0x00, 0x00, 0x00, 0x00, 0x00, 0xB0]"

text \<open>
  \<open>hsmSheLoadKey\<close>. \<open>B\<close> is the byte range of the packet that holds
  \<open>sheLoadKeyReq\<close> and \<open>sheLoadKeyRes\<close>; \<open>cm\<close> is the global \<open>sheCmac\<close>, written
  back at the end. A local buffer is the list of the bytes written to it so far
  (\<open>kdfInput\<close>, \<open>tmpKey\<close>, \<open>cmacOutput\<close> start empty); \<open>meta\<close> starts as whatever
  the stack holds (\<open>uninit_meta E\<close>).
\<close>

definition hsmSheLoadKey ::
  "'ks she_env \<Rightarrow> she_globals \<Rightarrow> 'ks whServerContext \<Rightarrow> whPacket \<Rightarrow> u16 \<Rightarrow> 'ks she_result" where
  "hsmSheLoadKey E g server packet sz =
     (let B = sheLoadKey packet;
          keyRet = WH_ERROR_OK;
          meta = uninit_meta E;
          \<comment> \<open>read the auth key by AuthID\<close>
          rd = hsmReadKey E (keystore server)
                 (she_key server (hsmShePopAuthId (messageOne B)))
                 (of_nat (WOLFHSM_SHE_KEY_SZ * 2));
          ret = rk_rc rd;
          kdfInput = (if ret = WH_ERROR_OK then rk_data rd else []);
          keySz = (if ret = WH_ERROR_OK then rk_len rd else of_nat (WOLFHSM_SHE_KEY_SZ * 2));
          \<comment> \<open>K2 = AES-MP(authKey | KEY_UPDATE_MAC_C)\<close>
          kdfInput1 = (if ret = WH_ERROR_OK
                       then blit kdfInput (unat keySz) WOLFHSM_SHE_KEY_UPDATE_MAC_C
                       else kdfInput);
          k2 = call_AesMp16 E server kdfInput1
                 (keySz + of_nat (length WOLFHSM_SHE_KEY_UPDATE_MAC_C)) [];
          ret1 = (if ret = WH_ERROR_OK then fst k2 else WH_SHE_ERC_KEY_NOT_AVAILABLE);
          tmpKey = (if ret = WH_ERROR_OK then snd k2 else []);
          \<comment> \<open>CMAC of M1 | M2 under K2\<close>
          ci = cmac_init E (sheCmac g) (take WOLFHSM_SHE_KEY_SZ tmpKey);
          ret2 = (if ret1 = WH_ERROR_OK then fst ci else ret1);
          cm1 = (if ret1 = WH_ERROR_OK then snd ci else sheCmac g);
          cu = cmac_update E cm1 (take (WOLFHSM_SHE_M1_SZ + 32) B);
          ret3 = (if ret2 = WH_ERROR_OK then fst cu else ret2);
          cm2 = (if ret2 = WH_ERROR_OK then snd cu else cm1);
          field = AES_BLOCK_SIZE;
          fin = wc_CmacFinal E cm2;
          ret4 = (if ret3 = WH_ERROR_OK then fst fin else ret3);
          cmacOutput = (if ret3 = WH_ERROR_OK then snd fin else []);
          \<comment> \<open>compare the digest to M3\<close>
          ret5 = (if ret4 = WH_ERROR_OK \<and>
                     take field (messageThree B) \<noteq> take field cmacOutput
                  then WH_SHE_ERC_KEY_UPDATE_ERROR else ret4);
          \<comment> \<open>K1 = AES-MP(authKey | KEY_UPDATE_ENC_C)\<close>
          kdfInput2 = (if ret5 = WH_ERROR_OK
                       then blit kdfInput1 (unat keySz) WOLFHSM_SHE_KEY_UPDATE_ENC_C
                       else kdfInput1);
          k1 = call_AesMp16 E server kdfInput2
                 (keySz + of_nat (length WOLFHSM_SHE_KEY_UPDATE_ENC_C)) tmpKey;
          ret6 = (if ret5 = WH_ERROR_OK then fst k1 else ret5);
          tmpKey1 = (if ret5 = WH_ERROR_OK then snd k1 else tmpKey);
          \<comment> \<open>decrypt M2 in place\<close>
          ret7 = (if ret6 = WH_ERROR_OK then wc_AesInit E else ret6);
          ret8 = (if ret7 = WH_ERROR_OK
                  then wc_AesSetKey E (take WOLFHSM_SHE_KEY_SZ tmpKey1) None AES_DECRYPTION
                  else ret7);
          dec = wc_AesCbcDecrypt E (take WOLFHSM_SHE_KEY_SZ tmpKey1) None (messageTwo B);
          ret9 = (if ret8 = WH_ERROR_OK then fst dec else ret8);
          B1 = (if ret8 = WH_ERROR_OK then blit B WOLFHSM_SHE_M1_SZ (snd dec) else B);
          \<comment> \<open>load the target key\<close>
          rt = hsmReadKey E (keystore server)
                 (she_key server (hsmShePopId (messageOne B1))) keySz;
          rdt = (if ret9 = WH_ERROR_OK then rk_rc rt else ret9);
          meta1 = (if ret9 = WH_ERROR_OK \<and> rk_rc rt = WH_ERROR_OK then rk_meta rt else meta);
          kdfInput3 = (if ret9 = WH_ERROR_OK \<and> rk_rc rt = WH_ERROR_OK
                       then blit kdfInput2 0 (rk_data rt) else kdfInput2);
          keySz1 = (if ret9 = WH_ERROR_OK \<and> rk_rc rt = WH_ERROR_OK then rk_len rt else keySz);
          cont = (rdt = WH_ERROR_NOTFOUND \<or>
                  (label_flags meta1 AND WOLFHSM_SHE_FLAG_WRITE_PROTECT E) = 0);
          keyRet1 = (if ret9 = WH_ERROR_OK \<and> cont then rdt else keyRet);
          ret10 = (if ret9 = WH_ERROR_OK
                   then (if cont then WH_ERROR_OK else WH_SHE_ERC_WRITE_PROTECTED)
                   else ret9);
          \<comment> \<open>check UID == 0, else compare to the UID\<close>
          ret11 = (if ret10 = WH_ERROR_OK \<and>
                      XMEMEQZERO (messageOne B1) (of_nat WOLFHSM_SHE_UID_SZ) = 1
                   then (if (label_flags meta1 AND WOLFHSM_SHE_FLAG_WILDCARD E) = 0
                         then WH_SHE_ERC_KEY_UPDATE_ERROR else ret10)
                   else (if ret10 = WH_ERROR_OK \<and>
                            take WOLFHSM_SHE_UID_SZ (messageOne B1) \<noteq>
                            take WOLFHSM_SHE_UID_SZ (sheUid server)
                         then WH_SHE_ERC_KEY_UPDATE_ERROR else ret10));
          \<comment> \<open>verify counter is greater than stored value\<close>
          ret12 = (if ret11 = WH_ERROR_OK \<and> keyRet1 \<noteq> WH_ERROR_NOTFOUND \<and>
                      ntohl E (drop_bit 4 (load_u32 E (messageTwo B1)))
                        \<le> ntohl E (label_count meta1)
                   then WH_SHE_ERC_KEY_UPDATE_ERROR else ret11);
          \<comment> \<open>write key with counter\<close>
          meta2 = (if ret12 = WH_ERROR_OK
                   then \<lparr> meta_id = she_key server (hsmShePopId (messageOne B1)),
                          meta_len = of_nat WOLFHSM_SHE_KEY_SZ,
                          label_count = drop_bit 4 (load_u32 E (messageTwo B1)),
                          label_flags = hsmShePopFlags (messageTwo B1) \<rparr>
                   else meta1);
          isRam = (key_slot (meta_id meta2) = WOLFHSM_SHE_RAM_KEY_ID E);
          newKey = take (unat (meta_len meta2)) (drop WOLFHSM_SHE_KEY_SZ (messageTwo B1));
          ck = hsmCacheKey E (keystore server) meta2 newKey;
          ao = wh_Nvm_AddObject E (keystore server) meta2 (meta_len meta2) newKey;
          ks1 = (if ret12 = WH_ERROR_OK
                 then (if isRam then snd ck else snd ao) else keystore server);
          ret13 = (if ret12 = WH_ERROR_OK then (if isRam then fst ck else fst ao) else ret12);
          rb = hsmReadKey E ks1 (meta_id meta2) (of_nat WOLFHSM_SHE_KEY_SZ);
          reread = (ret12 = WH_ERROR_OK \<and> \<not> isRam \<and> ret13 = WH_ERROR_OK);
          ret14 = (if reread then rk_rc rb else ret13);
          meta3 = (if reread \<and> rk_rc rb = WH_ERROR_OK then rk_meta rb else meta2);
          B2 = (if reread \<and> rk_rc rb = WH_ERROR_OK
                then blit B1 (WOLFHSM_SHE_M1_SZ + WOLFHSM_SHE_KEY_SZ) (rk_data rb) else B1);
          ret15 = (if ret12 = WH_ERROR_OK \<and> ret14 \<noteq> WH_ERROR_OK
                   then WH_SHE_ERC_KEY_UPDATE_ERROR else ret14);
          \<comment> \<open>K3 = AES-MP(new key | KEY_UPDATE_ENC_C)\<close>
          kdfInput4 = (if ret15 = WH_ERROR_OK
                       then blit (blit kdfInput3 0
                                    (take WOLFHSM_SHE_KEY_SZ (drop WOLFHSM_SHE_KEY_SZ (messageTwo B2))))
                              (unat (meta_len meta3)) WOLFHSM_SHE_KEY_UPDATE_ENC_C
                       else kdfInput3);
          k3 = call_AesMp16 E server kdfInput4
                 (meta_len meta3 + of_nat (length WOLFHSM_SHE_KEY_UPDATE_ENC_C)) tmpKey1;
          ret16 = (if ret15 = WH_ERROR_OK then fst k3 else ret15);
          tmpKey2 = (if ret15 = WH_ERROR_OK then snd k3 else tmpKey1);
          ret17 = (if ret16 = WH_ERROR_OK then wc_AesInit E else ret16);
          ret18 = (if ret17 = WH_ERROR_OK
                   then wc_AesSetKey E (take WOLFHSM_SHE_KEY_SZ tmpKey2) None AES_ENCRYPTION
                   else ret17);
          \<comment> \<open>reset M2 with the counter, pad with a 1 bit, encrypt into M4 + 16\<close>
          B3 = (if ret18 = WH_ERROR_OK
                then blit B2 WOLFHSM_SHE_M1_SZ (store_u32 E (push_bit 4 (label_count meta3)))
                else B2);
          B4 = (if ret18 = WH_ERROR_OK
                then B3[WOLFHSM_SHE_M1_SZ + 3 := (B3 ! (WOLFHSM_SHE_M1_SZ + 3)) OR 0x08]
                else B3);
          enc = wc_AesEncryptDirect E (take WOLFHSM_SHE_KEY_SZ tmpKey2)
                  (take AES_BLOCK_SIZE (messageTwo B4));
          ret19 = (if ret18 = WH_ERROR_OK then fst enc else ret18);
          B5 = (if ret18 = WH_ERROR_OK then blit B4 WOLFHSM_SHE_KEY_SZ (snd enc) else B4);
          \<comment> \<open>K4 = AES-MP(new key | KEY_UPDATE_MAC_C); M4 starts with our UID\<close>
          B6 = (if ret19 = WH_ERROR_OK
                then blit B5 0 (take WOLFHSM_SHE_UID_SZ (sheUid server)) else B5);
          kdfInput5 = (if ret19 = WH_ERROR_OK
                       then blit kdfInput4 (unat (meta_len meta3)) WOLFHSM_SHE_KEY_UPDATE_MAC_C
                       else kdfInput4);
          k4 = call_AesMp16 E server kdfInput5
                 (meta_len meta3 + of_nat (length WOLFHSM_SHE_KEY_UPDATE_MAC_C)) tmpKey2;
          ret20 = (if ret19 = WH_ERROR_OK then fst k4 else ret19);
          tmpKey3 = (if ret19 = WH_ERROR_OK then snd k4 else tmpKey2);
          \<comment> \<open>M5 = CMAC of M4 under K4\<close>
          cj = cmac_init E cm2 (take WOLFHSM_SHE_KEY_SZ tmpKey3);
          ret21 = (if ret20 = WH_ERROR_OK then fst cj else ret20);
          cm3 = (if ret20 = WH_ERROR_OK then snd cj else cm2);
          cw = cmac_update E cm3 (messageFour B6);
          ret22 = (if ret21 = WH_ERROR_OK then fst cw else ret21);
          cm4 = (if ret21 = WH_ERROR_OK then snd cw else cm3);
          fin5 = wc_CmacFinal E cm4;
          ret23 = (if ret22 = WH_ERROR_OK then fst fin5 else ret22);
          B7 = (if ret22 = WH_ERROR_OK then blit B6 32 (take AES_BLOCK_SIZE (snd fin5)) else B6)
      in (ret23,
          g\<lparr> sheCmac := cm4,
             hsmSheRamKeyPlain :=
               (if ret23 = WH_ERROR_OK \<and> key_slot (meta_id meta3) = WOLFHSM_SHE_RAM_KEY_ID E
                then 1 else hsmSheRamKeyPlain g) \<rparr>,
          server\<lparr> keystore := ks1 \<rparr>,
          packet\<lparr> sheLoadKey := B7 \<rparr>,
          (if ret23 = WH_ERROR_OK
           then WOLFHSM_PACKET_STUB_SIZE E + sizeof_res E WH_SHE_LOAD_KEY else sz)))"

text \<open>
  \<open>hsmSheExportRamKey\<close>. The five messages of \<open>sheExportRamKeyRes\<close> are separate
  members; \<open>cm\<close> is the global \<open>sheCmac\<close>.
\<close>

definition hsmSheExportRamKey ::
  "'ks she_env \<Rightarrow> she_globals \<Rightarrow> 'ks whServerContext \<Rightarrow> whPacket \<Rightarrow> u16 \<Rightarrow> 'ks she_result" where
  "hsmSheExportRamKey E g server packet sz =
     (let meta = uninit_meta E;
          ret = (if hsmSheRamKeyPlain g = 0 then WH_SHE_ERC_KEY_INVALID else WH_ERROR_OK);
          \<comment> \<open>read the auth key (the secret key)\<close>
          rd = hsmReadKey E (keystore server)
                 (she_key server (WOLFHSM_SHE_SECRET_KEY_ID E)) (of_nat WOLFHSM_SHE_KEY_SZ);
          ret1 = (if ret = WH_ERROR_OK
                  then (if rk_rc rd \<noteq> WH_ERROR_OK then WH_SHE_ERC_KEY_NOT_AVAILABLE
                        else WH_ERROR_OK)
                  else ret);
          meta1 = (if ret = WH_ERROR_OK \<and> rk_rc rd = WH_ERROR_OK then rk_meta rd else meta);
          kdfInput = (if ret = WH_ERROR_OK \<and> rk_rc rd = WH_ERROR_OK then rk_data rd else []);
          \<comment> \<open>M1 = UID | id | authId; K1\<close>
          M1 = (if ret1 = WH_ERROR_OK
                then (blit (sheExportRamKeyRes_messageOne packet) 0
                        (take WOLFHSM_SHE_UID_SZ (sheUid server)))
                     [15 := ucast (push_bit 4 (WOLFHSM_SHE_RAM_KEY_ID E) OR
                                   WOLFHSM_SHE_SECRET_KEY_ID E)]
                else sheExportRamKeyRes_messageOne packet);
          kdfInput1 = (if ret1 = WH_ERROR_OK
                       then blit kdfInput (unat (meta_len meta1)) WOLFHSM_SHE_KEY_UPDATE_ENC_C
                       else kdfInput);
          k1 = call_AesMp16 E server kdfInput1
                 (meta_len meta1 + of_nat (length WOLFHSM_SHE_KEY_UPDATE_ENC_C)) [];
          ret2 = (if ret1 = WH_ERROR_OK then fst k1 else ret1);
          tmpKey = (if ret1 = WH_ERROR_OK then snd k1 else []);
          \<comment> \<open>build cleartext M2: counter 1, flags 0, the RAM key\<close>
          rr = hsmReadKey E (keystore server)
                 (she_key server (WOLFHSM_SHE_RAM_KEY_ID E)) (of_nat WOLFHSM_SHE_KEY_SZ);
          M2a = (if ret2 = WH_ERROR_OK
                 then blit (replicate 32 0) 0 (store_u32 E (push_bit 4 (htonl E 1)))
                 else sheExportRamKeyRes_messageTwo packet);
          M2b = (if ret2 = WH_ERROR_OK \<and> rk_rc rr = WH_ERROR_OK
                 then blit M2a WOLFHSM_SHE_KEY_SZ (rk_data rr) else M2a);
          meta2 = (if ret2 = WH_ERROR_OK \<and> rk_rc rr = WH_ERROR_OK then rk_meta rr else meta1);
          ret3 = (if ret2 = WH_ERROR_OK
                  then (if rk_rc rr \<noteq> WH_ERROR_OK then WH_SHE_ERC_KEY_NOT_AVAILABLE
                        else WH_ERROR_OK)
                  else ret2);
          \<comment> \<open>encrypt M2 with K1\<close>
          ret4 = (if ret3 = WH_ERROR_OK then wc_AesInit E else ret3);
          ret5 = (if ret4 = WH_ERROR_OK
                  then wc_AesSetKey E (take WOLFHSM_SHE_KEY_SZ tmpKey) None AES_ENCRYPTION
                  else ret4);
          cmacOutput = (if ret5 = WH_ERROR_OK
                        then take WOLFHSM_SHE_KEY_SZ (drop WOLFHSM_SHE_KEY_SZ M2b) else []);
          enc = wc_AesCbcEncrypt E (take WOLFHSM_SHE_KEY_SZ tmpKey) None (take 32 M2b);
          ret6 = (if ret5 = WH_ERROR_OK then fst enc else ret5);
          M2c = (if ret5 = WH_ERROR_OK then blit M2b 0 (snd enc) else M2b);
          \<comment> \<open>K2, and M3 = CMAC of M1 | M2 under K2\<close>
          kdfInput2 = (if ret6 = WH_ERROR_OK
                       then blit kdfInput1 (unat (meta_len meta2)) WOLFHSM_SHE_KEY_UPDATE_MAC_C
                       else kdfInput1);
          k2 = call_AesMp16 E server kdfInput2
                 (meta_len meta2 + of_nat (length WOLFHSM_SHE_KEY_UPDATE_MAC_C)) tmpKey;
          ret7 = (if ret6 = WH_ERROR_OK then fst k2 else ret6);
          tmpKey1 = (if ret6 = WH_ERROR_OK then snd k2 else tmpKey);
          ci = cmac_init E (sheCmac g) (take WOLFHSM_SHE_KEY_SZ tmpKey1);
          ret8 = (if ret7 = WH_ERROR_OK then fst ci else ret7);
          cm1 = (if ret7 = WH_ERROR_OK then snd ci else sheCmac g);
          cu = cmac_update E cm1 (take 16 M1 @ take 32 M2c);
          ret9 = (if ret8 = WH_ERROR_OK then fst cu else ret8);
          cm2 = (if ret8 = WH_ERROR_OK then snd cu else cm1);
          fin = wc_CmacFinal E cm2;
          ret10 = (if ret9 = WH_ERROR_OK then fst fin else ret9);
          M3 = (if ret9 = WH_ERROR_OK
                then blit (sheExportRamKeyRes_messageThree packet) 0 (take AES_BLOCK_SIZE (snd fin))
                else sheExportRamKeyRes_messageThree packet);
          \<comment> \<open>K3 from the RAM key\<close>
          kdfInput3 = (if ret10 = WH_ERROR_OK
                       then blit (blit kdfInput2 0 (take WOLFHSM_SHE_KEY_SZ cmacOutput))
                              WOLFHSM_SHE_KEY_SZ WOLFHSM_SHE_KEY_UPDATE_ENC_C
                       else kdfInput2);
          k3 = call_AesMp16 E server kdfInput3
                 (of_nat WOLFHSM_SHE_KEY_SZ + of_nat (length WOLFHSM_SHE_KEY_UPDATE_ENC_C)) tmpKey1;
          ret11 = (if ret10 = WH_ERROR_OK then fst k3 else ret10);
          tmpKey2 = (if ret10 = WH_ERROR_OK then snd k3 else tmpKey1);
          ret12 = (if ret11 = WH_ERROR_OK then wc_AesInit E else ret11);
          ret13 = (if ret12 = WH_ERROR_OK
                   then wc_AesSetKey E (take WOLFHSM_SHE_KEY_SZ tmpKey2) None AES_ENCRYPTION
                   else ret12);
          \<comment> \<open>M4: counter 1 padded with a 1 bit, encrypted in place in its second half\<close>
          M4a = (if ret13 = WH_ERROR_OK
                 then blit (replicate 32 0) WOLFHSM_SHE_KEY_SZ
                        (store_u32 E (push_bit 4 (htonl E 1)))
                 else sheExportRamKeyRes_messageFour packet);
          M4b = (if ret13 = WH_ERROR_OK
                 then M4a[WOLFHSM_SHE_KEY_SZ + 3 := (M4a ! (WOLFHSM_SHE_KEY_SZ + 3)) OR 0x08]
                 else M4a);
          en4 = wc_AesEncryptDirect E (take WOLFHSM_SHE_KEY_SZ tmpKey2)
                  (take AES_BLOCK_SIZE (drop WOLFHSM_SHE_KEY_SZ M4b));
          ret14 = (if ret13 = WH_ERROR_OK then fst en4 else ret13);
          M4c = (if ret13 = WH_ERROR_OK then blit M4b WOLFHSM_SHE_KEY_SZ (snd en4) else M4b);
          \<comment> \<open>M4 head = UID | id | authId; K4; M5 = CMAC of M4 under K4\<close>
          M4d = (if ret14 = WH_ERROR_OK
                 then (blit M4c 0 (take WOLFHSM_SHE_UID_SZ (sheUid server)))
                      [15 := ucast (push_bit 4 (WOLFHSM_SHE_RAM_KEY_ID E) OR
                                    WOLFHSM_SHE_SECRET_KEY_ID E)]
                 else M4c);
          kdfInput4 = (if ret14 = WH_ERROR_OK
                       then blit kdfInput3 WOLFHSM_SHE_KEY_SZ WOLFHSM_SHE_KEY_UPDATE_MAC_C
                       else kdfInput3);
          k4 = call_AesMp16 E server kdfInput4
                 (of_nat WOLFHSM_SHE_KEY_SZ + of_nat (length WOLFHSM_SHE_KEY_UPDATE_MAC_C)) tmpKey2;
          ret15 = (if ret14 = WH_ERROR_OK then fst k4 else ret14);
          tmpKey3 = (if ret14 = WH_ERROR_OK then snd k4 else tmpKey2);
          cj = cmac_init E cm2 (take WOLFHSM_SHE_KEY_SZ tmpKey3);
          ret16 = (if ret15 = WH_ERROR_OK then fst cj else ret15);
          cm3 = (if ret15 = WH_ERROR_OK then snd cj else cm2);
          cw = cmac_update E cm3 (take 32 M4d);
          ret17 = (if ret16 = WH_ERROR_OK then fst cw else ret16);
          cm4 = (if ret16 = WH_ERROR_OK then snd cw else cm3);
          fin5 = wc_CmacFinal E cm4;
          ret18 = (if ret17 = WH_ERROR_OK then fst fin5 else ret17);
          M5 = (if ret17 = WH_ERROR_OK
                then blit (sheExportRamKeyRes_messageFive packet) 0 (take AES_BLOCK_SIZE (snd fin5))
                else sheExportRamKeyRes_messageFive packet)
      in (ret18,
          g\<lparr> sheCmac := cm4 \<rparr>,
          server,
          packet\<lparr> sheExportRamKeyRes_messageOne := M1,
                  sheExportRamKeyRes_messageTwo := M2c,
                  sheExportRamKeyRes_messageThree := M3,
                  sheExportRamKeyRes_messageFour := M4d,
                  sheExportRamKeyRes_messageFive := M5 \<rparr>,
          (if ret18 = WH_ERROR_OK
           then WOLFHSM_PACKET_STUB_SIZE E + sizeof_res E WH_SHE_EXPORT_RAM_KEY else sz)))"

definition hsmSheInitRnd ::
  "'ks she_env \<Rightarrow> she_globals \<Rightarrow> 'ks whServerContext \<Rightarrow> whPacket \<Rightarrow> u16 \<Rightarrow> 'ks she_result" where
  "hsmSheInitRnd E g server packet sz =
     (let ret = (if hsmSheRndInited g = 1 then WH_SHE_ERC_SEQUENCE_ERROR else WH_ERROR_OK);
          \<comment> \<open>read the secret key\<close>
          rd = hsmReadKey E (keystore server)
                 (she_key server (WOLFHSM_SHE_SECRET_KEY_ID E)) (of_nat WOLFHSM_SHE_KEY_SZ);
          ret1 = (if ret = WH_ERROR_OK
                  then (if rk_rc rd \<noteq> WH_ERROR_OK then WH_SHE_ERC_KEY_NOT_AVAILABLE
                        else WH_ERROR_OK)
                  else ret);
          kdfInput = (if ret = WH_ERROR_OK \<and> rk_rc rd = WH_ERROR_OK then rk_data rd else []);
          \<comment> \<open>PRNG_SEED_KEY\<close>
          kdfInput1 = (if ret1 = WH_ERROR_OK
                       then blit kdfInput WOLFHSM_SHE_KEY_SZ WOLFHSM_SHE_PRNG_SEED_KEY_C
                       else kdfInput);
          ks = call_AesMp16 E server kdfInput1
                 (of_nat WOLFHSM_SHE_KEY_SZ + of_nat (length WOLFHSM_SHE_PRNG_SEED_KEY_C)) [];
          ret2 = (if ret1 = WH_ERROR_OK then fst ks else ret1);
          tmpKey = (if ret1 = WH_ERROR_OK then snd ks else []);
          \<comment> \<open>read the current PRNG_SEED\<close>
          rs = hsmReadKey E (keystore server)
                 (she_key server (WOLFHSM_SHE_PRNG_SEED_ID E)) (of_nat WOLFHSM_SHE_KEY_SZ);
          ret3 = (if ret2 = WH_ERROR_OK
                  then (if rk_rc rs \<noteq> WH_ERROR_OK then WH_SHE_ERC_KEY_NOT_AVAILABLE
                        else WH_ERROR_OK)
                  else ret2);
          cmacOutput = (if ret2 = WH_ERROR_OK \<and> rk_rc rs = WH_ERROR_OK then rk_data rs else []);
          \<comment> \<open>encrypt to the new PRNG_SEED\<close>
          ret4 = (if ret3 = WH_ERROR_OK then wc_AesInit E else ret3);
          ret5 = (if ret4 = WH_ERROR_OK
                  then wc_AesSetKey E (take WOLFHSM_SHE_KEY_SZ tmpKey) None AES_ENCRYPTION
                  else ret4);
          enc = wc_AesCbcEncrypt E (take WOLFHSM_SHE_KEY_SZ tmpKey) None
                  (take WOLFHSM_SHE_KEY_SZ cmacOutput);
          ret6 = (if ret5 = WH_ERROR_OK then fst enc else ret5);
          cmacOutput1 = (if ret5 = WH_ERROR_OK then blit cmacOutput 0 (snd enc) else cmacOutput);
          \<comment> \<open>save the new PRNG_SEED\<close>
          meta = (uninit_meta E)\<lparr> meta_id := she_key server (WOLFHSM_SHE_PRNG_SEED_ID E),
                                   meta_len := of_nat WOLFHSM_SHE_KEY_SZ \<rparr>;
          ao = wh_Nvm_AddObject E (keystore server)
                 (if ret2 = WH_ERROR_OK \<and> rk_rc rs = WH_ERROR_OK
                  then (rk_meta rs)\<lparr> meta_id := she_key server (WOLFHSM_SHE_PRNG_SEED_ID E),
                                       meta_len := of_nat WOLFHSM_SHE_KEY_SZ \<rparr>
                  else meta)
                 (of_nat WOLFHSM_SHE_KEY_SZ) (take WOLFHSM_SHE_KEY_SZ cmacOutput1);
          ret7 = (if ret6 = WH_ERROR_OK
                  then (if fst ao \<noteq> WH_ERROR_OK then WH_SHE_ERC_KEY_UPDATE_ERROR
                        else WH_ERROR_OK)
                  else ret6);
          ks1 = (if ret6 = WH_ERROR_OK then snd ao else keystore server);
          \<comment> \<open>set PRNG_STATE, generate PRNG_KEY\<close>
          state = (if ret7 = WH_ERROR_OK
                   then memcpy (hsmShePrngState g) cmacOutput1 WOLFHSM_SHE_KEY_SZ
                   else hsmShePrngState g);
          kdfInput2 = (if ret7 = WH_ERROR_OK
                       then blit kdfInput1 WOLFHSM_SHE_KEY_SZ WOLFHSM_SHE_PRNG_KEY_C
                       else kdfInput1);
          kp = call_AesMp16 E server kdfInput2
                 (of_nat WOLFHSM_SHE_KEY_SZ + of_nat (length WOLFHSM_SHE_PRNG_KEY_C))
                 (WOLFHSM_SHE_PRNG_KEY g);
          ret8 = (if ret7 = WH_ERROR_OK then fst kp else ret7);
          pkey = (if ret7 = WH_ERROR_OK then snd kp else WOLFHSM_SHE_PRNG_KEY g)
      in (ret8,
          g\<lparr> WOLFHSM_SHE_PRNG_KEY := pkey,
             hsmShePrngState := state,
             hsmSheRndInited := (if ret8 = WH_ERROR_OK then 1 else hsmSheRndInited g) \<rparr>,
          server\<lparr> keystore := ks1 \<rparr>,
          (if ret8 = WH_ERROR_OK
           then packet\<lparr> sheInitRngRes_status := WOLFHSM_SHE_ERC_NO_ERROR \<rparr> else packet),
          (if ret8 = WH_ERROR_OK
           then WOLFHSM_PACKET_STUB_SIZE E + sizeof_res E WH_SHE_INIT_RND else sz)))"

text \<open>
  \<open>hsmSheExtendSeed\<close>. The second \<open>wh_AesMp16\<close> has \<open>kdfInput\<close> as input and as
  output: the first block is copied to \<open>paddedInput\<close> before \<open>out\<close> is written and
  the later blocks lie behind the 16 bytes of \<open>out\<close>, so the call computes what it
  computes on separate buffers.
\<close>

definition hsmSheExtendSeed ::
  "'ks she_env \<Rightarrow> she_globals \<Rightarrow> 'ks whServerContext \<Rightarrow> whPacket \<Rightarrow> u16 \<Rightarrow> 'ks she_result" where
  "hsmSheExtendSeed E g server packet sz =
     (let ret = (if hsmSheRndInited g = 0 then WH_SHE_ERC_RNG_SEED else WH_ERROR_OK);
          esz = length (sheExtendSeedReq_entropy packet);
          \<comment> \<open>extend PRNG_STATE\<close>
          kdfInput = (if ret = WH_ERROR_OK
                      then take WOLFHSM_SHE_KEY_SZ (hsmShePrngState g) @
                           sheExtendSeedReq_entropy packet
                      else []);
          ke = call_AesMp16 E server kdfInput (of_nat WOLFHSM_SHE_KEY_SZ + of_nat esz)
                 (hsmShePrngState g);
          ret1 = (if ret = WH_ERROR_OK then fst ke else ret);
          state = (if ret = WH_ERROR_OK then snd ke else hsmShePrngState g);
          \<comment> \<open>read the PRNG_SEED into kdfInput\<close>
          rs = hsmReadKey E (keystore server)
                 (she_key server (WOLFHSM_SHE_PRNG_SEED_ID E)) (of_nat WOLFHSM_SHE_KEY_SZ);
          ret2 = (if ret1 = WH_ERROR_OK
                  then (if rk_rc rs \<noteq> WH_ERROR_OK then WH_SHE_ERC_KEY_NOT_AVAILABLE
                        else WH_ERROR_OK)
                  else ret1);
          kdfInput1 = (if ret1 = WH_ERROR_OK \<and> rk_rc rs = WH_ERROR_OK
                       then blit kdfInput 0 (rk_data rs) else kdfInput);
          meta = (if ret1 = WH_ERROR_OK \<and> rk_rc rs = WH_ERROR_OK
                  then rk_meta rs else uninit_meta E);
          \<comment> \<open>extend PRNG_SEED\<close>
          kn = call_AesMp16 E server kdfInput1 (of_nat WOLFHSM_SHE_KEY_SZ + of_nat esz)
                 (take WOLFHSM_SHE_KEY_SZ kdfInput1);
          ret3 = (if ret2 = WH_ERROR_OK then fst kn else ret2);
          kdfInput2 = (if ret2 = WH_ERROR_OK then blit kdfInput1 0 (snd kn) else kdfInput1);
          \<comment> \<open>save PRNG_SEED\<close>
          ao = wh_Nvm_AddObject E (keystore server)
                 (meta\<lparr> meta_id := she_key server (WOLFHSM_SHE_PRNG_SEED_ID E),
                         meta_len := of_nat WOLFHSM_SHE_KEY_SZ \<rparr>)
                 (of_nat WOLFHSM_SHE_KEY_SZ) (take WOLFHSM_SHE_KEY_SZ kdfInput2);
          ret4 = (if ret3 = WH_ERROR_OK
                  then (if fst ao \<noteq> WH_ERROR_OK then WH_SHE_ERC_KEY_UPDATE_ERROR
                        else WH_ERROR_OK)
                  else ret3);
          ks1 = (if ret3 = WH_ERROR_OK then snd ao else keystore server)
      in (ret4,
          g\<lparr> hsmShePrngState := state \<rparr>,
          server\<lparr> keystore := ks1 \<rparr>,
          (if ret4 = WH_ERROR_OK
           then packet\<lparr> sheExtendSeedRes_status := WOLFHSM_SHE_ERC_NO_ERROR \<rparr> else packet),
          (if ret4 = WH_ERROR_OK
           then WOLFHSM_PACKET_STUB_SIZE E + sizeof_res E WH_SHE_EXTEND_SEED else sz)))"

text \<open>
  The four bulk-cipher handlers. \<open>field\<close> is the request's \<open>sz\<close> rounded down to
  a multiple of the block size; the cipher reads \<open>field\<close> bytes behind the request
  struct and writes its output behind the response struct.
\<close>

definition hsmSheEncEcb ::
  "'ks she_env \<Rightarrow> she_globals \<Rightarrow> 'ks whServerContext \<Rightarrow> whPacket \<Rightarrow> u16 \<Rightarrow> 'ks she_result" where
  "hsmSheEncEcb E g server packet sz =
     (let field0 = sheEncEcbReq_sz packet;
          field = field0 - (field0 mod of_nat AES_BLOCK_SIZE);
          rd = hsmReadKey E (keystore server)
                 (she_key server (ucast (sheEncEcbReq_keyId packet))) (of_nat WOLFHSM_SHE_KEY_SZ);
          tmpKey = (if rk_rc rd = WH_ERROR_OK then rk_data rd else []);
          keySz = (if rk_rc rd = WH_ERROR_OK then rk_len rd else of_nat WOLFHSM_SHE_KEY_SZ);
          ret = (if rk_rc rd = WH_ERROR_OK then wc_AesInit E else WH_SHE_ERC_KEY_NOT_AVAILABLE);
          ret1 = (if ret = WH_ERROR_OK
                  then wc_AesSetKey E (take (unat keySz) tmpKey) None AES_ENCRYPTION else ret);
          enc = wc_AesEcbEncrypt E (take (unat keySz) tmpKey)
                  (take (unat field) (sheEncEcbReq_in packet));
          ret2 = (if ret1 = WH_ERROR_OK then fst enc else ret1);
          packet1 = (if ret1 = WH_ERROR_OK
                     then packet\<lparr> sheEncEcbRes_out := blit (sheEncEcbRes_out packet) 0 (snd enc) \<rparr>
                     else packet)
      in if ret2 = WH_ERROR_OK
         then (ret2, g, server, packet1\<lparr> sheEncEcbRes_sz := field \<rparr>,
               WOLFHSM_PACKET_STUB_SIZE E + sizeof_res E WH_SHE_ENC_ECB + ucast field)
         else (ret2, g, server, packet1, sz))"

text \<open>
  \<open>hsmSheEncCbc\<close> stores the length through \<open>packet->sheEncEcbRes.sz\<close>, as the
  source has it.
\<close>

definition hsmSheEncCbc ::
  "'ks she_env \<Rightarrow> she_globals \<Rightarrow> 'ks whServerContext \<Rightarrow> whPacket \<Rightarrow> u16 \<Rightarrow> 'ks she_result" where
  "hsmSheEncCbc E g server packet sz =
     (let field0 = sheEncCbcReq_sz packet;
          field = field0 - (field0 mod of_nat AES_BLOCK_SIZE);
          rd = hsmReadKey E (keystore server)
                 (she_key server (ucast (sheEncCbcReq_keyId packet))) (of_nat WOLFHSM_SHE_KEY_SZ);
          tmpKey = (if rk_rc rd = WH_ERROR_OK then rk_data rd else []);
          keySz = (if rk_rc rd = WH_ERROR_OK then rk_len rd else of_nat WOLFHSM_SHE_KEY_SZ);
          ret = (if rk_rc rd = WH_ERROR_OK then wc_AesInit E else WH_SHE_ERC_KEY_NOT_AVAILABLE);
          ret1 = (if ret = WH_ERROR_OK
                  then wc_AesSetKey E (take (unat keySz) tmpKey) (Some (sheEncCbcReq_iv packet))
                         AES_ENCRYPTION
                  else ret);
          enc = wc_AesCbcEncrypt E (take (unat keySz) tmpKey) (Some (sheEncCbcReq_iv packet))
                  (take (unat field) (sheEncCbcReq_in packet));
          ret2 = (if ret1 = WH_ERROR_OK then fst enc else ret1);
          packet1 = (if ret1 = WH_ERROR_OK
                     then packet\<lparr> sheEncCbcRes_out := blit (sheEncCbcRes_out packet) 0 (snd enc) \<rparr>
                     else packet)
      in if ret2 = WH_ERROR_OK
         then (ret2, g, server, packet1\<lparr> sheEncEcbRes_sz := field \<rparr>,
               WOLFHSM_PACKET_STUB_SIZE E + sizeof_res E WH_SHE_ENC_CBC + ucast field)
         else (ret2, g, server, packet1, sz))"

definition hsmSheDecEcb ::
  "'ks she_env \<Rightarrow> she_globals \<Rightarrow> 'ks whServerContext \<Rightarrow> whPacket \<Rightarrow> u16 \<Rightarrow> 'ks she_result" where
  "hsmSheDecEcb E g server packet sz =
     (let field0 = sheDecEcbReq_sz packet;
          field = field0 - (field0 mod of_nat AES_BLOCK_SIZE);
          rd = hsmReadKey E (keystore server)
                 (she_key server (ucast (sheDecEcbReq_keyId packet))) (of_nat WOLFHSM_SHE_KEY_SZ);
          tmpKey = (if rk_rc rd = WH_ERROR_OK then rk_data rd else []);
          keySz = (if rk_rc rd = WH_ERROR_OK then rk_len rd else of_nat WOLFHSM_SHE_KEY_SZ);
          ret = (if rk_rc rd = WH_ERROR_OK then wc_AesInit E else WH_SHE_ERC_KEY_NOT_AVAILABLE);
          ret1 = (if ret = WH_ERROR_OK
                  then wc_AesSetKey E (take (unat keySz) tmpKey) None AES_DECRYPTION else ret);
          dec = wc_AesEcbDecrypt E (take (unat keySz) tmpKey)
                  (take (unat field) (sheDecEcbReq_in packet));
          ret2 = (if ret1 = WH_ERROR_OK then fst dec else ret1);
          packet1 = (if ret1 = WH_ERROR_OK
                     then packet\<lparr> sheDecEcbRes_out := blit (sheDecEcbRes_out packet) 0 (snd dec) \<rparr>
                     else packet)
      in if ret2 = WH_ERROR_OK
         then (ret2, g, server, packet1\<lparr> sheDecEcbRes_sz := field \<rparr>,
               WOLFHSM_PACKET_STUB_SIZE E + sizeof_res E WH_SHE_DEC_ECB + ucast field)
         else (ret2, g, server, packet1, sz))"

definition hsmSheDecCbc ::
  "'ks she_env \<Rightarrow> she_globals \<Rightarrow> 'ks whServerContext \<Rightarrow> whPacket \<Rightarrow> u16 \<Rightarrow> 'ks she_result" where
  "hsmSheDecCbc E g server packet sz =
     (let field0 = sheDecCbcReq_sz packet;
          field = field0 - (field0 mod of_nat AES_BLOCK_SIZE);
          rd = hsmReadKey E (keystore server)
                 (she_key server (ucast (sheDecCbcReq_keyId packet))) (of_nat WOLFHSM_SHE_KEY_SZ);
          tmpKey = (if rk_rc rd = WH_ERROR_OK then rk_data rd else []);
          keySz = (if rk_rc rd = WH_ERROR_OK then rk_len rd else of_nat WOLFHSM_SHE_KEY_SZ);
          ret = (if rk_rc rd = WH_ERROR_OK then wc_AesInit E else WH_SHE_ERC_KEY_NOT_AVAILABLE);
          ret1 = (if ret = WH_ERROR_OK
                  then wc_AesSetKey E (take (unat keySz) tmpKey) (Some (sheDecCbcReq_iv packet))
                         AES_DECRYPTION
                  else ret);
          dec = wc_AesCbcDecrypt E (take (unat keySz) tmpKey) (Some (sheDecCbcReq_iv packet))
                  (take (unat field) (sheDecCbcReq_in packet));
          ret2 = (if ret1 = WH_ERROR_OK then fst dec else ret1);
          packet1 = (if ret1 = WH_ERROR_OK
                     then packet\<lparr> sheDecCbcRes_out := blit (sheDecCbcRes_out packet) 0 (snd dec) \<rparr>
                     else packet)
      in if ret2 = WH_ERROR_OK
         then (ret2, g, server, packet1\<lparr> sheDecCbcRes_sz := field \<rparr>,
               WOLFHSM_PACKET_STUB_SIZE E + sizeof_res E WH_SHE_DEC_CBC + ucast field)
         else (ret2, g, server, packet1, sz))"

section \<open>SHE protocol engine: the dispatcher\<close>

text \<open>
  The \<open>switch\<close> of \<open>wh_Server_HandleSheRequest\<close>: the handler of the action, and
  \<open>WH_ERROR_BADARGS\<close> for a code that is no action.
\<close>

definition she_dispatch ::
  "'ks she_env \<Rightarrow> u16 \<Rightarrow> she_globals \<Rightarrow> 'ks whServerContext \<Rightarrow> whPacket \<Rightarrow> u16 \<Rightarrow> 'ks she_result" where
  "she_dispatch E action g server packet sz =
     (if action = WH_SHE_SET_UID then hsmSheSetUid E g server packet sz
      else if action = WH_SHE_SECURE_BOOT_INIT then hsmSheSecureBootInit E g server packet sz
      else if action = WH_SHE_SECURE_BOOT_UPDATE then hsmSheSecureBootUpdate E g server packet sz
      else if action = WH_SHE_SECURE_BOOT_FINISH then hsmSheSecureBootFinish E g server packet sz
      else if action = WH_SHE_GET_STATUS then hsmSheGetStatus E g server packet sz
      else if action = WH_SHE_LOAD_KEY then hsmSheLoadKey E g server packet sz
      else if action = WH_SHE_LOAD_PLAIN_KEY then hsmSheLoadPlainKey E g server packet sz
      else if action = WH_SHE_EXPORT_RAM_KEY then hsmSheExportRamKey E g server packet sz
      else if action = WH_SHE_INIT_RND then hsmSheInitRnd E g server packet sz
      else if action = WH_SHE_RND then hsmSheRnd E g server packet sz
      else if action = WH_SHE_EXTEND_SEED then hsmSheExtendSeed E g server packet sz
      else if action = WH_SHE_ENC_ECB then hsmSheEncEcb E g server packet sz
      else if action = WH_SHE_ENC_CBC then hsmSheEncCbc E g server packet sz
      else if action = WH_SHE_DEC_ECB then hsmSheDecEcb E g server packet sz
      else if action = WH_SHE_DEC_CBC then hsmSheDecCbc E g server packet sz
      else (WH_ERROR_BADARGS, g, server, packet, sz))"

text \<open>
  \<open>wh_Server_HandleSheRequest(server, action, data, size)\<close>. The three pointers are
  options; the result is the return value, the file-level variables, and what the
  three pointers point to afterwards.
\<close>

definition wh_Server_HandleSheRequest ::
  "'ks she_env \<Rightarrow> she_globals \<Rightarrow> 'ks whServerContext option \<Rightarrow> u16 \<Rightarrow> whPacket option \<Rightarrow>
   u16 option \<Rightarrow>
   wh_rc \<times> she_globals \<times> 'ks whServerContext option \<times> whPacket option \<times> u16 option" where
  "wh_Server_HandleSheRequest E g server action data size_p =
     (case server of
        None \<Rightarrow> (WH_ERROR_BADARGS, g, server, data, size_p)
      | Some srv \<Rightarrow>
     (case data of
        None \<Rightarrow> (WH_ERROR_BADARGS, g, server, data, size_p)
      | Some packet \<Rightarrow>
     (case size_p of
        None \<Rightarrow> (WH_ERROR_BADARGS, g, server, data, size_p)
      | Some sz \<Rightarrow>
          if (hsmSheSbState g \<noteq> WOLFHSM_SHE_SB_SUCCESS \<and>
              (action \<noteq> WH_SHE_SECURE_BOOT_INIT \<and>
               action \<noteq> WH_SHE_SECURE_BOOT_UPDATE \<and>
               action \<noteq> WH_SHE_SECURE_BOOT_FINISH \<and>
               action \<noteq> WH_SHE_GET_STATUS \<and>
               action \<noteq> WH_SHE_SET_UID)) \<or>
             (action \<noteq> WH_SHE_SET_UID \<and> hsmSheUidSet g = 0)
          then (WH_ERROR_OK, g, server,
                Some (packet\<lparr> rc := WH_SHE_ERC_SEQUENCE_ERROR \<rparr>),
                Some (WOLFHSM_PACKET_STUB_SIZE E + sizeof_rc E))
          else
            let r = she_dispatch E action g srv packet sz;
                ret = fst r;
                g1 = fst (snd r);
                srv1 = fst (snd (snd r));
                packet1 = fst (snd (snd (snd r)));
                sz1 = snd (snd (snd (snd r)));
                \<comment> \<open>if a handler didn't set a specific error, set general error\<close>
                ret1 = (if ret \<noteq> WH_ERROR_OK \<and>
                           ret \<noteq> WH_SHE_ERC_SEQUENCE_ERROR \<and>
                           ret \<noteq> WH_SHE_ERC_KEY_NOT_AVAILABLE \<and>
                           ret \<noteq> WH_SHE_ERC_KEY_INVALID \<and>
                           ret \<noteq> WH_SHE_ERC_KEY_EMPTY \<and>
                           ret \<noteq> WH_SHE_ERC_NO_SECURE_BOOT \<and>
                           ret \<noteq> WH_SHE_ERC_WRITE_PROTECTED \<and>
                           ret \<noteq> WH_SHE_ERC_KEY_UPDATE_ERROR \<and>
                           ret \<noteq> WH_SHE_ERC_RNG_SEED \<and>
                           ret \<noteq> WH_SHE_ERC_NO_DEBUGGING \<and>
                           ret \<noteq> WH_SHE_ERC_BUSY \<and>
                           ret \<noteq> WH_SHE_ERC_MEMORY_FAILURE
                        then WH_SHE_ERC_GENERAL_ERROR else ret);
                packet2 = (if ret \<noteq> WH_ERROR_OK then packet1\<lparr> rc := ret1 \<rparr> else packet1);
                sz2 = (if ret \<noteq> WH_ERROR_OK
                       then WOLFHSM_PACKET_STUB_SIZE E + sizeof_rc E else sz1);
                \<comment> \<open>reset our SHE state\<close>
                g2 = (if (action = WH_SHE_SECURE_BOOT_INIT \<or>
                          action = WH_SHE_SECURE_BOOT_UPDATE \<or>
                          action = WH_SHE_SECURE_BOOT_FINISH) \<and>
                         ret1 \<noteq> WH_ERROR_OK \<and> ret1 \<noteq> WH_SHE_ERC_NO_SECURE_BOOT
                      then g1\<lparr> hsmSheSbState := WOLFHSM_SHE_SB_INIT,
                               hsmSheBlSize := 0,
                               hsmSheBlSizeReceived := 0,
                               hsmSheCmacKeyFound := 0 \<rparr>
                      else g1)
            in (WH_ERROR_OK, g2, Some srv1, Some (packet2\<lparr> rc := ret1 \<rparr>), Some sz2))))"

section \<open>An instance of the environment, for the closed theorems\<close>

text \<open>
  Modelled from the spec: the keystore is not among the sources. This instance
  follows the contract the spec gives (\<open>ReadKey(id, ...) -> ok | NOT_FOUND\<close>,
  \<open>AddObject\<close> and \<open>CacheKey\<close> store an object under the id of its metadata): the
  keystore is a list of objects with the newest first, a read finds the newest object
  with the id, and a write puts the object in front.
\<close>

type_synonym ref_keystore = "(whKeyId \<times> whNvmMetadata \<times> u8 list) list"

definition ref_hsmReadKey ::
  "ref_keystore \<Rightarrow> whKeyId \<Rightarrow> u32 \<Rightarrow> wh_rc \<times> whNvmMetadata \<times> u8 list \<times> u32" where
  "ref_hsmReadKey ks kid cap =
     (case map_of ks kid of
        None \<Rightarrow> (WH_ERROR_NOTFOUND,
                 \<lparr> meta_id = kid, meta_len = 0, label_count = 0, label_flags = 0 \<rparr>, [], cap)
      | Some obj \<Rightarrow> (WH_ERROR_OK, fst obj, snd obj, of_nat (length (snd obj))))"

definition ref_Nvm_AddObject ::
  "ref_keystore \<Rightarrow> whNvmMetadata \<Rightarrow> u32 \<Rightarrow> u8 list \<Rightarrow> wh_rc \<times> ref_keystore" where
  "ref_Nvm_AddObject ks meta n d = (WH_ERROR_OK, (meta_id meta, meta, take (unat n) d) # ks)"

definition ref_hsmCacheKey ::
  "ref_keystore \<Rightarrow> whNvmMetadata \<Rightarrow> u8 list \<Rightarrow> wh_rc \<times> ref_keystore" where
  "ref_hsmCacheKey ks meta d =
     (WH_ERROR_OK, (meta_id meta, meta, take (unat (meta_len meta)) d) # ks)"

text \<open>
  A stand-in for the crypto provider, total and cheap to evaluate: the block
  operation XORs key and block, the bulk operations XOR the repeated key onto the
  data, and the MAC XORs the key onto the first 16 bytes of the (zero-padded)
  message. Every call returns 0. The theorems that use it do not depend on what the
  cipher is, only on which requests are authentic under it.
\<close>

definition toy_block :: "u8 list \<Rightarrow> u8 list \<Rightarrow> u8 list" where
  "toy_block k p = map2 (XOR) k p"

definition toy_stream :: "u8 list \<Rightarrow> u8 list \<Rightarrow> u8 list" where
  "toy_stream k d = map2 (XOR) (k @ k @ k @ k) d"

definition toy_mac :: "Cmac \<Rightarrow> u8 list" where
  "toy_mac cm = map2 (XOR) (cmac_key cm) (take 16 (cmac_data cm @ replicate 16 0))"

text \<open>
  The constants of the absent headers have the values of the SHE standard here, the
  struct sizes are placeholders, and the host is little-endian.
\<close>

definition example_env :: "ref_keystore she_env" where
  "example_env =
     \<lparr> wc_AesInit = WH_ERROR_OK,
       wc_AesSetKey = (\<lambda>k iv d. WH_ERROR_OK),
       wc_AesSetKeyDirect = (\<lambda>k d. WH_ERROR_OK),
       wc_AesEncryptDirect = (\<lambda>k p. (WH_ERROR_OK, toy_block k p)),
       wc_AesCbcEncrypt = (\<lambda>k iv d. (WH_ERROR_OK, toy_stream k d)),
       wc_AesCbcDecrypt = (\<lambda>k iv d. (WH_ERROR_OK, toy_stream k d)),
       wc_AesEcbEncrypt = (\<lambda>k d. (WH_ERROR_OK, toy_stream k d)),
       wc_AesEcbDecrypt = (\<lambda>k d. (WH_ERROR_OK, toy_stream k d)),
       wc_InitCmac_ex = (\<lambda>k. WH_ERROR_OK),
       wc_CmacUpdate = (\<lambda>cm d. WH_ERROR_OK),
       wc_CmacFinal = (\<lambda>cm. (WH_ERROR_OK, toy_mac cm)),
       hsmReadKey = ref_hsmReadKey,
       wh_Nvm_AddObject = ref_Nvm_AddObject,
       hsmCacheKey = ref_hsmCacheKey,
       WOLFHSM_SHE_FLAG_WRITE_PROTECT = 0x01,
       WOLFHSM_SHE_FLAG_WILDCARD = 0x10,
       WOLFHSM_SHE_SECRET_KEY_ID = 0,
       WOLFHSM_SHE_BOOT_MAC_KEY_ID = 2,
       WOLFHSM_SHE_BOOT_MAC = 3,
       WOLFHSM_SHE_RAM_KEY_ID = 14,
       WOLFHSM_SHE_PRNG_SEED_ID = 15,
       WOLFHSM_SHE_SREG_SECURE_BOOT = 0x02,
       WOLFHSM_SHE_SREG_BOOT_FINISHED = 0x08,
       WOLFHSM_SHE_SREG_BOOT_OK = 0x10,
       WOLFHSM_SHE_SREG_RND_INIT = 0x20,
       WOLFHSM_PACKET_STUB_SIZE = 8,
       sizeof_res = (\<lambda>a. 64),
       sizeof_rc = 4,
       host_big_endian = False,
       uninit_meta = \<lparr> meta_id = MAKE_WOLFHSM_KEYID WOLFHSM_KEYTYPE_SHE 0 0,
                       meta_len = 0, label_count = 0, label_flags = 0 \<rparr> \<rparr>"

text \<open>A packet with every member empty, and a server of client 1 with a given keystore.\<close>

definition empty_packet :: whPacket where
  "empty_packet =
     \<lparr> rc = WH_ERROR_OK,
       sheSetUidReq_uid = [],
       sheSecureBootInitReq_sz = 0,
       sheSecureBootInitRes_status = WH_ERROR_OK,
       sheSecureBootUpdateReq_sz = 0,
       sheSecureBootUpdateReq_in = [],
       sheSecureBootUpdateRes_status = WH_ERROR_OK,
       sheSecureBootFinishRes_status = WH_ERROR_OK,
       sheGetStatusRes_sreg = 0,
       sheLoadKey = [],
       sheLoadPlainKeyReq_key = [],
       sheExportRamKeyRes_messageOne = [],
       sheExportRamKeyRes_messageTwo = [],
       sheExportRamKeyRes_messageThree = [],
       sheExportRamKeyRes_messageFour = [],
       sheExportRamKeyRes_messageFive = [],
       sheInitRngRes_status = WH_ERROR_OK,
       sheRndRes_rnd = [],
       sheExtendSeedReq_entropy = [],
       sheExtendSeedRes_status = WH_ERROR_OK,
       sheEncEcbReq_sz = 0,
       sheEncEcbReq_keyId = 0,
       sheEncEcbReq_in = [],
       sheEncEcbRes_sz = 0,
       sheEncEcbRes_out = [],
       sheEncCbcReq_sz = 0,
       sheEncCbcReq_keyId = 0,
       sheEncCbcReq_iv = [],
       sheEncCbcReq_in = [],
       sheEncCbcRes_out = [],
       sheDecEcbReq_sz = 0,
       sheDecEcbReq_keyId = 0,
       sheDecEcbReq_in = [],
       sheDecEcbRes_sz = 0,
       sheDecEcbRes_out = [],
       sheDecCbcReq_sz = 0,
       sheDecCbcReq_keyId = 0,
       sheDecCbcReq_iv = [],
       sheDecCbcReq_in = [],
       sheDecCbcRes_sz = 0,
       sheDecCbcRes_out = [] \<rparr>"

definition example_uid :: "u8 list" where
  "example_uid = [0, 1, 2, 3, 4, 5, 6, 7, 8, 9, 10, 11, 12, 13, 14]"

definition example_server :: "ref_keystore \<Rightarrow> ref_keystore whServerContext" where
  "example_server ks = \<lparr> sheUid = example_uid, client_id = 1, keystore = ks \<rparr>"

text \<open>The file-level variables after \<open>SET_UID\<close> and a secure boot that ended in \<open>SUCCESS\<close>.\<close>

definition booted_globals :: she_globals where
  "booted_globals =
     she_globals_init\<lparr> hsmSheUidSet := 1, hsmSheSbState := WOLFHSM_SHE_SB_SUCCESS \<rparr>"


text \<open>
  A secure boot about to finish: a 4-byte image has been fed to the CMAC (12 zero
  bytes, the size in host order, the image). Under the stand-in MAC the tag of this
  context is \<open>5a\<close> twelve times, then \<open>5e 5a 5a 5a\<close>.
\<close>

definition finish_globals :: she_globals where
  "finish_globals =
     she_globals_init
       \<lparr> hsmSheSbState := WOLFHSM_SHE_SB_FINISH,
         hsmSheCmacKeyFound := 1,
         hsmSheUidSet := 1,
         hsmSheBlSize := 4,
         hsmSheBlSizeReceived := 4,
         sheCmac := \<lparr> cmac_key = [0x5a, 0x5a, 0x5a, 0x5a, 0x5a, 0x5a, 0x5a, 0x5a,
                                   0x5a, 0x5a, 0x5a, 0x5a, 0x5a, 0x5a, 0x5a, 0x5a],
                      cmac_data = [0, 0, 0, 0, 0, 0, 0, 0, 0, 0, 0, 0, 4, 0, 0, 0,
                                   0xde, 0xad, 0xbe, 0xef] \<rparr> \<rparr>"

text \<open>A keystore of client 1 that holds one 16-byte object in the slot \<open>slot\<close>.\<close>

definition one_key_store :: "u16 \<Rightarrow> u32 \<Rightarrow> u32 \<Rightarrow> u8 list \<Rightarrow> ref_keystore" where
  "one_key_store slot cnt flgs bytes =
     [(MAKE_WOLFHSM_KEYID WOLFHSM_KEYTYPE_SHE 1 slot,
       \<lparr> meta_id = MAKE_WOLFHSM_KEYID WOLFHSM_KEYTYPE_SHE 1 slot, meta_len = 16,
         label_count = cnt, label_flags = flgs \<rparr>,
       bytes)]"

definition good_boot_mac :: "u8 list" where
  "good_boot_mac = [0x5a, 0x5a, 0x5a, 0x5a, 0x5a, 0x5a, 0x5a, 0x5a,
                    0x5a, 0x5a, 0x5a, 0x5a, 0x5e, 0x5a, 0x5a, 0x5a]"

definition bad_boot_mac :: "u8 list" where
  "bad_boot_mac = [0, 0, 0, 0, 0, 0, 0, 0, 0, 0, 0, 0, 0, 0, 0, 0]"

text \<open>
  A secure boot in the middle of a 4 GiB - 1 image: \<open>0xFFFFFFF0\<close> bytes have been
  received; and a well-formed \<open>SECURE_BOOT_UPDATE\<close> request with a chunk of 32 bytes.
\<close>

definition update_globals :: she_globals where
  "update_globals =
     she_globals_init
       \<lparr> hsmSheSbState := WOLFHSM_SHE_SB_UPDATE,
         hsmSheCmacKeyFound := 1,
         hsmSheUidSet := 1,
         hsmSheBlSize := 0xFFFFFFFF,
         hsmSheBlSizeReceived := 0xFFFFFFF0,
         sheCmac := \<lparr> cmac_key = [0x5a, 0x5a, 0x5a, 0x5a, 0x5a, 0x5a, 0x5a, 0x5a,
                                   0x5a, 0x5a, 0x5a, 0x5a, 0x5a, 0x5a, 0x5a, 0x5a],
                      cmac_data = [] \<rparr> \<rparr>"

definition chunk32 :: "u8 list" where
  "chunk32 = [1, 2, 3, 4, 5, 6, 7, 8, 9, 10, 11, 12, 13, 14, 15, 16,
              17, 18, 19, 20, 21, 22, 23, 24, 25, 26, 27, 28, 29, 30, 31, 32]"

definition update_packet :: whPacket where
  "update_packet =
     empty_packet\<lparr> sheSecureBootUpdateReq_sz := 0x20, sheSecureBootUpdateReq_in := chunk32 \<rparr>"

text \<open>
  A second block function for the closed theorems on \<open>wh_AesMp16\<close>: with the XOR of
  \<open>toy_block\<close> every chaining value of AES-MP16 is zero, with this one it is not.
\<close>

definition mix_block :: "u8 list \<Rightarrow> u8 list \<Rightarrow> u8 list" where
  "mix_block k p = map2 (\<lambda>a b. 2 * a + b + 1) k p"

definition mp_env :: "ref_keystore she_env" where
  "mp_env = example_env \<lparr> wc_AesEncryptDirect := (\<lambda>k p. (WH_ERROR_OK, mix_block k p)) \<rparr>"

text \<open>
  The counter of \<open>M2\<close> in the words of the spec: the top 28 bits of the first 32-bit
  big-endian word of (the plaintext of) \<open>M2\<close>.
\<close>

definition she_counter :: "u8 list \<Rightarrow> u32" where
  "she_counter m2 = drop_bit 4 (be_u32 m2)"

text \<open>
  \<open>LOAD_KEY\<close> requests for the slot 4 of client 1, authorised by the key of slot 1.
  Under the stand-in provider every key that AES-MP16 derives is zero, so \<open>M2\<close>
  travels in clear and the tag \<open>M3\<close> of \<open>M1 | M2\<close> is \<open>M1\<close>. \<open>load_key_m1\<close>
  carries the UID of the server; the two \<open>M2\<close> carry the counters 256 and 16, no
  flag, and a new key each.
\<close>

definition master_key :: "u8 list" where
  "master_key = [0x11, 0x11, 0x11, 0x11, 0x11, 0x11, 0x11, 0x11,
                 0x11, 0x11, 0x11, 0x11, 0x11, 0x11, 0x11, 0x11]"

definition key_a :: "u8 list" where
  "key_a = [0xa0, 0xa1, 0xa2, 0xa3, 0xa4, 0xa5, 0xa6, 0xa7,
            0xa8, 0xa9, 0xaa, 0xab, 0xac, 0xad, 0xae, 0xaf]"

definition key_b :: "u8 list" where
  "key_b = [0xb0, 0xb1, 0xb2, 0xb3, 0xb4, 0xb5, 0xb6, 0xb7,
            0xb8, 0xb9, 0xba, 0xbb, 0xbc, 0xbd, 0xbe, 0xbf]"

definition load_key_m1 :: "u8 list" where
  "load_key_m1 = example_uid @ [0x41]"

definition m2_counter_256 :: "u8 list" where
  "m2_counter_256 = [0x00, 0x00, 0x10, 0x00, 0, 0, 0, 0, 0, 0, 0, 0, 0, 0, 0, 0] @ key_a"

definition m2_counter_16 :: "u8 list" where
  "m2_counter_16 = [0x00, 0x00, 0x01, 0x00, 0, 0, 0, 0, 0, 0, 0, 0, 0, 0, 0, 0] @ key_b"

definition load_key_packet :: "u8 list \<Rightarrow> u8 list \<Rightarrow> u8 list \<Rightarrow> whPacket" where
  "load_key_packet m1 m2 m3 = empty_packet\<lparr> sheLoadKey := m1 @ m2 @ m3 \<rparr>"

definition master_store :: ref_keystore where
  "master_store = one_key_store 1 0 0 master_key"

text \<open>
  Two successive \<open>LOAD_KEY\<close> on the slot 4, which is empty at first: the first with
  the counter 256, the second, on the state that the first leaves, with the counter 16.
\<close>

definition first_load :: "ref_keystore she_result" where
  "first_load = hsmSheLoadKey example_env booted_globals (example_server master_store)
                  (load_key_packet load_key_m1 m2_counter_256 load_key_m1) 0"

definition second_load :: "ref_keystore she_result" where
  "second_load = hsmSheLoadKey example_env (fst (snd first_load)) (fst (snd (snd first_load)))
                  (load_key_packet load_key_m1 m2_counter_16 load_key_m1) 0"

text \<open>
  A \<open>LOAD_KEY\<close> whose \<open>M1\<close> carries the UID \<open>07 00 ... 00\<close>, which is neither zero
  nor the UID of the server, with the counter 1, on a keystore in which the slot 4
  exists with the counter 0 and the flag \<open>WILDCARD\<close>.
\<close>

definition foreign_m1 :: "u8 list" where
  "foreign_m1 = [7, 0, 0, 0, 0, 0, 0, 0, 0, 0, 0, 0, 0, 0, 0] @ [0x41]"

definition m2_counter_1 :: "u8 list" where
  "m2_counter_1 = [0x00, 0x00, 0x00, 0x10, 0, 0, 0, 0, 0, 0, 0, 0, 0, 0, 0, 0] @ key_b"

definition wildcard_store :: ref_keystore where
  "wildcard_store = one_key_store 4 0 0x10 key_a @ master_store"

definition wildcard_load :: "ref_keystore she_result" where
  "wildcard_load = hsmSheLoadKey example_env booted_globals (example_server wildcard_store)
                     (load_key_packet foreign_m1 m2_counter_1 foreign_m1) 0"

text \<open>The example environment with a provider whose \<open>wc_AesInit\<close> fails.\<close>

definition failing_aes_env :: "ref_keystore she_env" where
  "failing_aes_env = example_env \<lparr> wc_AesInit := RC_OTHER (- 1) \<rparr>"


section \<open>Theorems: shared-memory transport\<close>

text \<open>
  C8. For an initialised client and server context on the same buffers, in the quiescent
  state (\<open>req.notify = resp.notify\<close>), and a payload of \<open>ln\<close> bytes that fits the
  request region: \<open>SendRequest\<close> succeeds, the following \<open>RecvRequest\<close> succeeds,
  reports \<open>out_len = ln\<close> and delivers exactly the \<open>ln\<close> bytes sent (the rest of the
  receiver's buffer keeps its length). Symmetrically, in any state \<open>m'\<close> of the
  buffers whose response region holds \<open>ln\<close> bytes, \<open>SendResponse\<close> followed by
  \<open>RecvResponse\<close> delivers the response bytes.
\<close>

theorem transport_send_recv_roundtrip:
  assumes "initialized cctx \<noteq> 0" and "initialized sctx \<noteq> 0"
    and "notify (req m) = notify (resp m)"
    and "unat ln \<le> length (req_data m)"
    and "unat ln \<le> length (resp_data m')"
    and "length d = unat ln"
    and "unat ln \<le> length buf"
  shows "(\<exists>m1 buf1.
            wh_TransportMem_SendRequest (Some cctx) m ln (Some d) = (WH_ERROR_OK, m1) \<and>
            wh_TransportMem_RecvRequest (Some sctx) m1 (Some ol) (Some buf)
              = (WH_ERROR_OK, Some ln, Some buf1) \<and>
            take (unat ln) buf1 = d \<and> length buf1 = length buf) \<and>
         (\<exists>m1 buf1.
            wh_TransportMem_SendResponse (Some sctx) m' ln (Some d) = (WH_ERROR_OK, m1) \<and>
            wh_TransportMem_RecvResponse (Some cctx) m1 (Some ol) (Some buf)
              = (WH_ERROR_OK, Some ln, Some buf1) \<and>
            take (unat ln) buf1 = d \<and> length buf1 = length buf)"
  using assms
  by (auto simp add: wh_TransportMem_SendRequest_def wh_TransportMem_RecvRequest_def
      wh_TransportMem_SendResponse_def wh_TransportMem_RecvResponse_def Let_def memcpy_def)

text \<open>
  Witness for C8 (the spec's scenario 5): the client sends \<open>de ad be ef\<close> on zeroed
  buffers with 8-byte payload regions and the server receives these four bytes; the
  server answers \<open>ca fe\<close> on buffers with an outstanding request and the client
  receives it (the second half is instantiated at the same length and payload).
\<close>

theorem transport_send_recv_roundtrip_witness:
  "(\<exists>m1 buf1.
      wh_TransportMem_SendRequest
        (Some \<lparr> req_size = 16, resp_size = 16, initialized = 1 \<rparr>)
        \<lparr> req = \<lparr> notify = 0, len = 0, ack = 0, wait = 0 \<rparr>,
          req_data = [0, 0, 0, 0, 0, 0, 0, 0],
          resp = \<lparr> notify = 0, len = 0, ack = 0, wait = 0 \<rparr>,
          resp_data = [0, 0, 0, 0, 0, 0, 0, 0] \<rparr>
        4 (Some [0xde, 0xad, 0xbe, 0xef]) = (WH_ERROR_OK, m1) \<and>
      wh_TransportMem_RecvRequest
        (Some \<lparr> req_size = 16, resp_size = 16, initialized = 1 \<rparr>)
        m1 (Some 0) (Some [1, 1, 1, 1, 1, 1])
        = (WH_ERROR_OK, Some 4, Some buf1) \<and>
      take (unat (4 :: u16)) buf1 = [0xde, 0xad, 0xbe, 0xef] \<and>
      length buf1 = length [1, 1, 1, 1, 1, 1 :: u8]) \<and>
   (\<exists>m1 buf1.
      wh_TransportMem_SendResponse
        (Some \<lparr> req_size = 16, resp_size = 16, initialized = 1 \<rparr>)
        \<lparr> req = \<lparr> notify = 1, len = 4, ack = 0, wait = 0 \<rparr>,
          req_data = [0xde, 0xad, 0xbe, 0xef, 0, 0, 0, 0],
          resp = \<lparr> notify = 0, len = 0, ack = 0, wait = 0 \<rparr>,
          resp_data = [0, 0, 0, 0, 0, 0, 0, 0] \<rparr>
        4 (Some [0xde, 0xad, 0xbe, 0xef]) = (WH_ERROR_OK, m1) \<and>
      wh_TransportMem_RecvResponse
        (Some \<lparr> req_size = 16, resp_size = 16, initialized = 1 \<rparr>)
        m1 (Some 0) (Some [1, 1, 1, 1, 1, 1])
        = (WH_ERROR_OK, Some 4, Some buf1) \<and>
      take (unat (4 :: u16)) buf1 = [0xde, 0xad, 0xbe, 0xef] \<and>
      length buf1 = length [1, 1, 1, 1, 1, 1 :: u8])"
  by (rule transport_send_recv_roundtrip) simp_all

text \<open>
  C9. For an initialised context: \<open>SendRequest\<close> returns \<open>NOTREADY\<close> exactly when
  \<open>req.notify \<noteq> resp.notify\<close>, \<open>RecvRequest\<close> exactly when
  \<open>req.notify = resp.notify\<close>, \<open>RecvResponse\<close> exactly when
  \<open>resp.notify \<noteq> req.notify\<close> (\<open>SendResponse\<close> never does). An operation that
  returns \<open>NOTREADY\<close> returns the shared buffers (both CSRs, both payload regions) and
  the caller's variables as they were, so the same call on the state it leaves returns
  the same again.
\<close>

theorem transport_notready_iff_and_idempotent:
  assumes "initialized ctx \<noteq> 0"
  shows "(fst (wh_TransportMem_SendRequest (Some ctx) m ln data) = WH_ERROR_NOTREADY
            \<longleftrightarrow> notify (req m) \<noteq> notify (resp m)) \<and>
         (fst (wh_TransportMem_RecvRequest (Some ctx) m ol buf) = WH_ERROR_NOTREADY
            \<longleftrightarrow> notify (req m) = notify (resp m)) \<and>
         (fst (wh_TransportMem_RecvResponse (Some ctx) m ol buf) = WH_ERROR_NOTREADY
            \<longleftrightarrow> notify (resp m) \<noteq> notify (req m)) \<and>
         fst (wh_TransportMem_SendResponse (Some ctx) m ln data) \<noteq> WH_ERROR_NOTREADY \<and>
         (fst (wh_TransportMem_SendRequest (Some ctx) m ln data) = WH_ERROR_NOTREADY
            \<longrightarrow> wh_TransportMem_SendRequest (Some ctx) m ln data = (WH_ERROR_NOTREADY, m) \<and>
                wh_TransportMem_SendRequest (Some ctx)
                  (snd (wh_TransportMem_SendRequest (Some ctx) m ln data)) ln data
                  = (WH_ERROR_NOTREADY, m)) \<and>
         (fst (wh_TransportMem_RecvRequest (Some ctx) m ol buf) = WH_ERROR_NOTREADY
            \<longrightarrow> wh_TransportMem_RecvRequest (Some ctx) m ol buf = (WH_ERROR_NOTREADY, ol, buf)) \<and>
         (fst (wh_TransportMem_RecvResponse (Some ctx) m ol buf) = WH_ERROR_NOTREADY
            \<longrightarrow> wh_TransportMem_RecvResponse (Some ctx) m ol buf = (WH_ERROR_NOTREADY, ol, buf))"
  using assms
  by (auto simp add: wh_TransportMem_SendRequest_def wh_TransportMem_RecvRequest_def
      wh_TransportMem_SendResponse_def wh_TransportMem_RecvResponse_def Let_def
      split: option.splits)

text \<open>
  Witness for C9: with a request outstanding (\<open>req.notify = 1\<close>, \<open>resp.notify = 0\<close>)
  a second \<open>SendRequest\<close> and a \<open>RecvResponse\<close> return \<open>NOTREADY\<close> and change
  nothing, while \<open>RecvRequest\<close> does not return \<open>NOTREADY\<close>.
\<close>

theorem transport_notready_iff_and_idempotent_witness:
  "wh_TransportMem_SendRequest
     (Some \<lparr> req_size = 16, resp_size = 16, initialized = 1 \<rparr>)
     \<lparr> req = \<lparr> notify = 1, len = 4, ack = 0, wait = 0 \<rparr>,
       req_data = [0xde, 0xad, 0xbe, 0xef, 0, 0, 0, 0],
       resp = \<lparr> notify = 0, len = 0, ack = 0, wait = 0 \<rparr>,
       resp_data = [0, 0, 0, 0, 0, 0, 0, 0] \<rparr>
     2 (Some [0xca, 0xfe])
   = (WH_ERROR_NOTREADY,
      \<lparr> req = \<lparr> notify = 1, len = 4, ack = 0, wait = 0 \<rparr>,
        req_data = [0xde, 0xad, 0xbe, 0xef, 0, 0, 0, 0],
        resp = \<lparr> notify = 0, len = 0, ack = 0, wait = 0 \<rparr>,
        resp_data = [0, 0, 0, 0, 0, 0, 0, 0] \<rparr>) \<and>
   wh_TransportMem_RecvResponse
     (Some \<lparr> req_size = 16, resp_size = 16, initialized = 1 \<rparr>)
     \<lparr> req = \<lparr> notify = 1, len = 4, ack = 0, wait = 0 \<rparr>,
       req_data = [0xde, 0xad, 0xbe, 0xef, 0, 0, 0, 0],
       resp = \<lparr> notify = 0, len = 0, ack = 0, wait = 0 \<rparr>,
       resp_data = [0, 0, 0, 0, 0, 0, 0, 0] \<rparr>
     (Some 7) (Some [1, 1])
   = (WH_ERROR_NOTREADY, Some 7, Some [1, 1]) \<and>
   fst (wh_TransportMem_RecvRequest
     (Some \<lparr> req_size = 16, resp_size = 16, initialized = 1 \<rparr>)
     \<lparr> req = \<lparr> notify = 1, len = 4, ack = 0, wait = 0 \<rparr>,
       req_data = [0xde, 0xad, 0xbe, 0xef, 0, 0, 0, 0],
       resp = \<lparr> notify = 0, len = 0, ack = 0, wait = 0 \<rparr>,
       resp_data = [0, 0, 0, 0, 0, 0, 0, 0] \<rparr>
     (Some 7) (Some [1, 1])) \<noteq> WH_ERROR_NOTREADY"
  using transport_notready_iff_and_idempotent
    [of "\<lparr> req_size = 16, resp_size = 16, initialized = 1 \<rparr>"
        "\<lparr> req = \<lparr> notify = 1, len = 4, ack = 0, wait = 0 \<rparr>,
           req_data = [0xde, 0xad, 0xbe, 0xef, 0, 0, 0, 0],
           resp = \<lparr> notify = 0, len = 0, ack = 0, wait = 0 \<rparr>,
           resp_data = [0, 0, 0, 0, 0, 0, 0, 0] \<rparr>"
        2 "Some [0xca, 0xfe]" "Some 7" "Some [1, 1]"]
  by simp

section \<open>Theorems: the dispatcher\<close>

lemmas she_action_defs =
  WH_SHE_SET_UID_def WH_SHE_SECURE_BOOT_INIT_def WH_SHE_SECURE_BOOT_UPDATE_def
  WH_SHE_SECURE_BOOT_FINISH_def WH_SHE_GET_STATUS_def WH_SHE_LOAD_KEY_def
  WH_SHE_LOAD_PLAIN_KEY_def WH_SHE_EXPORT_RAM_KEY_def WH_SHE_INIT_RND_def WH_SHE_RND_def
  WH_SHE_EXTEND_SEED_def WH_SHE_ENC_ECB_def WH_SHE_ENC_CBC_def WH_SHE_DEC_ECB_def
  WH_SHE_DEC_CBC_def

text \<open>
  C2. With non-null \<open>server\<close>, \<open>data\<close> and \<open>size\<close>: for an action other than
  \<open>SET_UID\<close>, \<open>GET_STATUS\<close> and the three \<open>SECURE_BOOT_*\<close>, when \<open>uid_set\<close> is
  false or \<open>sb_state \<noteq> SUCCESS\<close>, and for every action other than \<open>SET_UID\<close> while
  \<open>uid_set\<close> is false (it is false from process start until a \<open>SET_UID\<close>
  succeeds), \<open>wh_Server_HandleSheRequest\<close> returns 0, the packet is the request with
  \<open>rc = SEQUENCE_ERROR\<close>, and the file-level variables and the server context are
  what they were: no handler ran.
\<close>

theorem HandleSheRequest_sequence_gate:
  assumes "(action \<noteq> WH_SHE_SET_UID \<and> action \<noteq> WH_SHE_GET_STATUS \<and>
            action \<noteq> WH_SHE_SECURE_BOOT_INIT \<and> action \<noteq> WH_SHE_SECURE_BOOT_UPDATE \<and>
            action \<noteq> WH_SHE_SECURE_BOOT_FINISH \<and>
            (hsmSheUidSet g = 0 \<or> hsmSheSbState g \<noteq> WOLFHSM_SHE_SB_SUCCESS)) \<or>
           (action \<noteq> WH_SHE_SET_UID \<and> hsmSheUidSet g = 0)"
  shows "wh_Server_HandleSheRequest E g (Some server) action (Some packet) (Some sz) =
           (WH_ERROR_OK, g, Some server,
            Some (packet\<lparr> rc := WH_SHE_ERC_SEQUENCE_ERROR \<rparr>),
            Some (WOLFHSM_PACKET_STUB_SIZE E + sizeof_rc E))"
  using assms by (auto simp add: wh_Server_HandleSheRequest_def)

text \<open>
  Witness for C2: \<open>LOAD_KEY\<close> after \<open>SET_UID\<close> but before the secure boot has
  succeeded, and \<open>GET_STATUS\<close> at process start, before any \<open>SET_UID\<close>.
\<close>

theorem HandleSheRequest_sequence_gate_witness:
  "wh_Server_HandleSheRequest example_env (she_globals_init\<lparr> hsmSheUidSet := 1 \<rparr>)
     (Some (example_server [])) WH_SHE_LOAD_KEY (Some empty_packet) (Some 0) =
     (WH_ERROR_OK, she_globals_init\<lparr> hsmSheUidSet := 1 \<rparr>, Some (example_server []),
      Some (empty_packet\<lparr> rc := WH_SHE_ERC_SEQUENCE_ERROR \<rparr>),
      Some (WOLFHSM_PACKET_STUB_SIZE example_env + sizeof_rc example_env)) \<and>
   wh_Server_HandleSheRequest example_env she_globals_init
     (Some (example_server [])) WH_SHE_GET_STATUS (Some empty_packet) (Some 0) =
     (WH_ERROR_OK, she_globals_init, Some (example_server []),
      Some (empty_packet\<lparr> rc := WH_SHE_ERC_SEQUENCE_ERROR \<rparr>),
      Some (WOLFHSM_PACKET_STUB_SIZE example_env + sizeof_rc example_env))"
  by (rule conjI; rule HandleSheRequest_sequence_gate)
     (simp_all add: she_action_defs she_globals_init_def)

text \<open>
  C10. For an action code that is none of the fifteen SHE actions, with non-null
  \<open>server\<close>, \<open>data\<close> and \<open>size\<close> and the gate open (\<open>uid_set\<close> and
  \<open>sb_state = SUCCESS\<close>), \<open>wh_Server_HandleSheRequest\<close> returns 0 and the packet is
  the request with \<open>rc = GENERAL_ERROR\<close>; the file-level variables (UID flag,
  \<open>sb_state\<close>, PRNG state, flags) and the server context are unchanged.
\<close>

theorem HandleSheRequest_unknown_action:
  assumes "action \<notin> set she_actions"
    and "hsmSheUidSet g \<noteq> 0" and "hsmSheSbState g = WOLFHSM_SHE_SB_SUCCESS"
  shows "wh_Server_HandleSheRequest E g (Some server) action (Some packet) (Some sz) =
           (WH_ERROR_OK, g, Some server,
            Some (packet\<lparr> rc := WH_SHE_ERC_GENERAL_ERROR \<rparr>),
            Some (WOLFHSM_PACKET_STUB_SIZE E + sizeof_rc E))"
  using assms
  by (simp add: wh_Server_HandleSheRequest_def she_dispatch_def she_actions_def Let_def)

text \<open>Witness for C10: the action code 200 after \<open>SET_UID\<close> and a successful boot.\<close>

theorem HandleSheRequest_unknown_action_witness:
  "wh_Server_HandleSheRequest example_env booted_globals (Some (example_server [])) 200
     (Some empty_packet) (Some 0) =
     (WH_ERROR_OK, booted_globals, Some (example_server []),
      Some (empty_packet\<lparr> rc := WH_SHE_ERC_GENERAL_ERROR \<rparr>),
      Some (WOLFHSM_PACKET_STUB_SIZE example_env + sizeof_rc example_env))"
  by (rule HandleSheRequest_unknown_action)
     (simp_all add: she_action_defs she_actions_def booted_globals_def she_globals_init_def)

text \<open>
  What the dispatcher does once the gate is open: the handler's code \<open>ret\<close> is
  replaced by \<open>GENERAL_ERROR\<close> unless it is 0 or a recognised SHE code, the secure
  boot state is reset after a failed \<open>SECURE_BOOT_*\<close>, and the final code goes into
  \<open>rc\<close>.
\<close>

lemma HandleSheRequest_open:
  assumes "hsmSheUidSet g \<noteq> 0"
    and "hsmSheSbState g = WOLFHSM_SHE_SB_SUCCESS \<or> action = WH_SHE_SECURE_BOOT_INIT \<or>
         action = WH_SHE_SECURE_BOOT_UPDATE \<or> action = WH_SHE_SECURE_BOOT_FINISH \<or>
         action = WH_SHE_GET_STATUS \<or> action = WH_SHE_SET_UID"
    and "she_dispatch E action g server packet sz = (ret, g1, srv1, packet1, sz1)"
    and "ret1 = (if ret \<noteq> WH_ERROR_OK \<and>
                           ret \<noteq> WH_SHE_ERC_SEQUENCE_ERROR \<and>
                           ret \<noteq> WH_SHE_ERC_KEY_NOT_AVAILABLE \<and>
                           ret \<noteq> WH_SHE_ERC_KEY_INVALID \<and>
                           ret \<noteq> WH_SHE_ERC_KEY_EMPTY \<and>
                           ret \<noteq> WH_SHE_ERC_NO_SECURE_BOOT \<and>
                           ret \<noteq> WH_SHE_ERC_WRITE_PROTECTED \<and>
                           ret \<noteq> WH_SHE_ERC_KEY_UPDATE_ERROR \<and>
                           ret \<noteq> WH_SHE_ERC_RNG_SEED \<and>
                           ret \<noteq> WH_SHE_ERC_NO_DEBUGGING \<and>
                           ret \<noteq> WH_SHE_ERC_BUSY \<and>
                           ret \<noteq> WH_SHE_ERC_MEMORY_FAILURE
                        then WH_SHE_ERC_GENERAL_ERROR else ret)"
  shows "wh_Server_HandleSheRequest E g (Some server) action (Some packet) (Some sz) =
           (WH_ERROR_OK,
            (if (action = WH_SHE_SECURE_BOOT_INIT \<or> action = WH_SHE_SECURE_BOOT_UPDATE \<or>
                 action = WH_SHE_SECURE_BOOT_FINISH) \<and>
                ret1 \<noteq> WH_ERROR_OK \<and> ret1 \<noteq> WH_SHE_ERC_NO_SECURE_BOOT
             then g1\<lparr> hsmSheSbState := WOLFHSM_SHE_SB_INIT, hsmSheBlSize := 0,
                      hsmSheBlSizeReceived := 0, hsmSheCmacKeyFound := 0 \<rparr>
             else g1),
            Some srv1, Some (packet1\<lparr> rc := ret1 \<rparr>),
            Some (if ret \<noteq> WH_ERROR_OK then WOLFHSM_PACKET_STUB_SIZE E + sizeof_rc E else sz1))"
proof -
  have gate: "\<not> ((hsmSheSbState g \<noteq> WOLFHSM_SHE_SB_SUCCESS \<and>
              (action \<noteq> WH_SHE_SECURE_BOOT_INIT \<and>
               action \<noteq> WH_SHE_SECURE_BOOT_UPDATE \<and>
               action \<noteq> WH_SHE_SECURE_BOOT_FINISH \<and>
               action \<noteq> WH_SHE_GET_STATUS \<and>
               action \<noteq> WH_SHE_SET_UID)) \<or>
             (action \<noteq> WH_SHE_SET_UID \<and> hsmSheUidSet g = 0))"
    using assms(1,2) by blast
  have pk: "(if ret \<noteq> WH_ERROR_OK then packet1\<lparr> rc := ret1 \<rparr> else packet1)\<lparr> rc := ret1 \<rparr>
            = packet1\<lparr> rc := ret1 \<rparr>"
    by simp
  show ?thesis
    unfolding wh_Server_HandleSheRequest_def
    apply (simp only: option.case if_not_P[OF gate])
    apply (simp only: Let_def assms(3) fst_conv snd_conv)
    apply (simp only: assms(4)[symmetric] pk)
    done
qed

lemma she_dispatch_simps:
  "she_dispatch E WH_SHE_SET_UID = hsmSheSetUid E"
  "she_dispatch E WH_SHE_SECURE_BOOT_INIT = hsmSheSecureBootInit E"
  "she_dispatch E WH_SHE_SECURE_BOOT_UPDATE = hsmSheSecureBootUpdate E"
  "she_dispatch E WH_SHE_SECURE_BOOT_FINISH = hsmSheSecureBootFinish E"
  "she_dispatch E WH_SHE_GET_STATUS = hsmSheGetStatus E"
  "she_dispatch E WH_SHE_LOAD_KEY = hsmSheLoadKey E"
  "she_dispatch E WH_SHE_LOAD_PLAIN_KEY = hsmSheLoadPlainKey E"
  "she_dispatch E WH_SHE_EXPORT_RAM_KEY = hsmSheExportRamKey E"
  "she_dispatch E WH_SHE_INIT_RND = hsmSheInitRnd E"
  "she_dispatch E WH_SHE_RND = hsmSheRnd E"
  "she_dispatch E WH_SHE_EXTEND_SEED = hsmSheExtendSeed E"
  "she_dispatch E WH_SHE_ENC_ECB = hsmSheEncEcb E"
  "she_dispatch E WH_SHE_ENC_CBC = hsmSheEncCbc E"
  "she_dispatch E WH_SHE_DEC_ECB = hsmSheDecEcb E"
  "she_dispatch E WH_SHE_DEC_CBC = hsmSheDecCbc E"
  by (auto simp add: she_dispatch_def she_action_defs fun_eq_iff)

section \<open>Theorems: the random number generator\<close>




section \<open>Theorems: secure boot\<close>

text \<open>
  \<open>hsmSheSecureBootFinish\<close> in the state \<open>FINISH\<close>, when \<open>wc_CmacFinal\<close> succeeds
  with \<open>tag\<close> and the read of \<open>BOOT_MAC\<close> gives the code \<open>rcK\<close> and the bytes
  \<open>digest\<close>.
\<close>

lemma hsmSheSecureBootFinish_cases:
  assumes "hsmSheSbState g = WOLFHSM_SHE_SB_FINISH"
    and "wc_CmacFinal E (sheCmac g) = (WH_ERROR_OK, tag)"
    and "hsmReadKey E (keystore server) (she_key server (WOLFHSM_SHE_BOOT_MAC E)) 16
           = (rcK, m, digest, n)"
  shows "hsmSheSecureBootFinish E g server packet sz =
           (if rcK \<noteq> WH_ERROR_OK then (WH_SHE_ERC_KEY_NOT_AVAILABLE, g, server, packet, sz)
            else if take 16 tag = take 16 digest
            then (WH_ERROR_OK, g\<lparr> hsmSheSbState := WOLFHSM_SHE_SB_SUCCESS \<rparr>, server,
                  packet\<lparr> sheSecureBootFinishRes_status := WH_ERROR_OK \<rparr>,
                  WOLFHSM_PACKET_STUB_SIZE E + sizeof_res E WH_SHE_SECURE_BOOT_FINISH)
            else (WH_SHE_ERC_GENERAL_ERROR, g\<lparr> hsmSheSbState := WOLFHSM_SHE_SB_FAILURE \<rparr>,
                  server, packet, sz))"
  using assms
  by (simp add: hsmSheSecureBootFinish_def Let_def WOLFHSM_SHE_KEY_SZ_def AES_BLOCK_SIZE_def
        rk_rc_def rk_data_def)

lemma secure_boot_finish_passes_gate:
  "hsmSheSbState g = WOLFHSM_SHE_SB_SUCCESS \<or>
   WH_SHE_SECURE_BOOT_FINISH = WH_SHE_SECURE_BOOT_INIT \<or>
   WH_SHE_SECURE_BOOT_FINISH = WH_SHE_SECURE_BOOT_UPDATE \<or>
   WH_SHE_SECURE_BOOT_FINISH = WH_SHE_SECURE_BOOT_FINISH \<or>
   WH_SHE_SECURE_BOOT_FINISH = WH_SHE_GET_STATUS \<or>
   WH_SHE_SECURE_BOOT_FINISH = WH_SHE_SET_UID"
  by simp

lemma secure_boot_update_passes_gate:
  "hsmSheSbState g = WOLFHSM_SHE_SB_SUCCESS \<or>
   WH_SHE_SECURE_BOOT_UPDATE = WH_SHE_SECURE_BOOT_INIT \<or>
   WH_SHE_SECURE_BOOT_UPDATE = WH_SHE_SECURE_BOOT_UPDATE \<or>
   WH_SHE_SECURE_BOOT_UPDATE = WH_SHE_SECURE_BOOT_FINISH \<or>
   WH_SHE_SECURE_BOOT_UPDATE = WH_SHE_GET_STATUS \<or>
   WH_SHE_SECURE_BOOT_UPDATE = WH_SHE_SET_UID"
  by simp

text \<open>
  C5, as the claim states it, fails: when the digests differ the handler sets
  \<open>sb_state = FAILURE\<close>, but the dispatcher resets the secure-boot state after every
  failed \<open>SECURE_BOOT_*\<close>, so what is observable after
  \<open>wh_Server_HandleSheRequest\<close> returns is \<open>sb_state = INIT\<close>, never \<open>FAILURE\<close>.
  Counterexample: a finished CMAC whose tag is not the stored \<open>BOOT_MAC\<close>.
\<close>

theorem SecureBootFinish_failure_not_observable:
  "wh_Server_HandleSheRequest example_env finish_globals
     (Some (example_server (one_key_store 3 0 0 bad_boot_mac)))
     WH_SHE_SECURE_BOOT_FINISH (Some empty_packet) (Some 0) =
     (WH_ERROR_OK,
      finish_globals\<lparr> hsmSheSbState := WOLFHSM_SHE_SB_INIT, hsmSheBlSize := 0,
                      hsmSheBlSizeReceived := 0, hsmSheCmacKeyFound := 0 \<rparr>,
      Some (example_server (one_key_store 3 0 0 bad_boot_mac)),
      Some (empty_packet\<lparr> rc := WH_SHE_ERC_GENERAL_ERROR \<rparr>),
      Some 12) \<and>
   hsmSheSbState (fst (snd (wh_Server_HandleSheRequest example_env finish_globals
     (Some (example_server (one_key_store 3 0 0 bad_boot_mac)))
     WH_SHE_SECURE_BOOT_FINISH (Some empty_packet) (Some 0)))) \<noteq> WOLFHSM_SHE_SB_FAILURE"
proof -
  have uid: "hsmSheUidSet finish_globals \<noteq> 0"
    by (simp add: finish_globals_def she_globals_init_def)
  have d: "she_dispatch example_env WH_SHE_SECURE_BOOT_FINISH finish_globals
             (example_server (one_key_store 3 0 0 bad_boot_mac)) empty_packet 0
           = (WH_SHE_ERC_GENERAL_ERROR,
              finish_globals\<lparr> hsmSheSbState := WOLFHSM_SHE_SB_FAILURE \<rparr>,
              example_server (one_key_store 3 0 0 bad_boot_mac), empty_packet, 0)"
    by (simp add: she_dispatch_simps hsmSheSecureBootFinish_def Let_def example_env_def
          finish_globals_def she_globals_init_def example_server_def one_key_store_def
          she_key_def ref_hsmReadKey_def toy_mac_def bad_boot_mac_def rk_rc_def rk_data_def
          WOLFHSM_SHE_KEY_SZ_def AES_BLOCK_SIZE_def)
  show ?thesis
    using HandleSheRequest_open[OF uid secure_boot_finish_passes_gate d refl]
    by (simp add: example_env_def)
qed

text \<open>
  C5, amended. For a \<open>SECURE_BOOT_FINISH\<close> request in the state \<open>FINISH\<close> (with the
  UID set, as it is whenever the state is not \<open>INIT\<close>), when \<open>wc_CmacFinal\<close>
  succeeds with \<open>tag\<close>, what \<open>wh_Server_HandleSheRequest\<close> leaves is:
  \<^item> \<open>BOOT_MAC\<close> cannot be read: \<open>rc = KEY_NOT_AVAILABLE\<close>, and the secure-boot
    state is reset (\<open>sb_state = INIT\<close>, \<open>bl_size\<close>, \<open>bl_size_received\<close>,
    \<open>cmac_key_found\<close> cleared);
  \<^item> the first 16 bytes of tag and digest agree: \<open>sb_state = SUCCESS\<close>, \<open>rc = 0\<close>
    (\<open>NO_ERROR\<close>);
  \<^item> they differ: \<open>rc = GENERAL_ERROR\<close>, and the secure-boot state is reset, so
    \<open>sb_state = INIT\<close> (the \<open>FAILURE\<close> that the handler set is overwritten).
\<close>

theorem SecureBootFinish_outcomes:
  assumes "hsmSheUidSet g \<noteq> 0"
    and "hsmSheSbState g = WOLFHSM_SHE_SB_FINISH"
    and "wc_CmacFinal E (sheCmac g) = (WH_ERROR_OK, tag)"
    and "hsmReadKey E (keystore server) (she_key server (WOLFHSM_SHE_BOOT_MAC E)) 16
           = (rcK, m, digest, n)"
  shows "wh_Server_HandleSheRequest E g (Some server) WH_SHE_SECURE_BOOT_FINISH (Some packet)
           (Some sz) =
           (if rcK \<noteq> WH_ERROR_OK
            then (WH_ERROR_OK,
                  g\<lparr> hsmSheSbState := WOLFHSM_SHE_SB_INIT, hsmSheBlSize := 0,
                     hsmSheBlSizeReceived := 0, hsmSheCmacKeyFound := 0 \<rparr>,
                  Some server, Some (packet\<lparr> rc := WH_SHE_ERC_KEY_NOT_AVAILABLE \<rparr>),
                  Some (WOLFHSM_PACKET_STUB_SIZE E + sizeof_rc E))
            else if take 16 tag = take 16 digest
            then (WH_ERROR_OK, g\<lparr> hsmSheSbState := WOLFHSM_SHE_SB_SUCCESS \<rparr>, Some server,
                  Some (packet\<lparr> sheSecureBootFinishRes_status := WH_ERROR_OK,
                                 rc := WH_ERROR_OK \<rparr>),
                  Some (WOLFHSM_PACKET_STUB_SIZE E + sizeof_res E WH_SHE_SECURE_BOOT_FINISH))
            else (WH_ERROR_OK,
                  g\<lparr> hsmSheSbState := WOLFHSM_SHE_SB_INIT, hsmSheBlSize := 0,
                     hsmSheBlSizeReceived := 0, hsmSheCmacKeyFound := 0 \<rparr>,
                  Some server, Some (packet\<lparr> rc := WH_SHE_ERC_GENERAL_ERROR \<rparr>),
                  Some (WOLFHSM_PACKET_STUB_SIZE E + sizeof_rc E)))"
proof -
  note h = hsmSheSecureBootFinish_cases[OF assms(2) assms(3) assms(4), of packet sz]
  show ?thesis
  proof (cases "rcK \<noteq> WH_ERROR_OK")
    case True
    with h have d: "she_dispatch E WH_SHE_SECURE_BOOT_FINISH g server packet sz
                 = (WH_SHE_ERC_KEY_NOT_AVAILABLE, g, server, packet, sz)"
      by (simp add: she_dispatch_simps)
    show ?thesis
      using HandleSheRequest_open[OF assms(1) secure_boot_finish_passes_gate d refl] True
      by simp
  next
    case False
    show ?thesis
    proof (cases "take 16 tag = take 16 digest")
      case True
      with h False have d: "she_dispatch E WH_SHE_SECURE_BOOT_FINISH g server packet sz
                 = (WH_ERROR_OK, g\<lparr> hsmSheSbState := WOLFHSM_SHE_SB_SUCCESS \<rparr>, server,
                  packet\<lparr> sheSecureBootFinishRes_status := WH_ERROR_OK \<rparr>,
                  WOLFHSM_PACKET_STUB_SIZE E + sizeof_res E WH_SHE_SECURE_BOOT_FINISH)"
        by (simp add: she_dispatch_simps)
      show ?thesis
        using HandleSheRequest_open[OF assms(1) secure_boot_finish_passes_gate d refl]
          True False
        by simp
    next
      case ne: False
      with h False have d: "she_dispatch E WH_SHE_SECURE_BOOT_FINISH g server packet sz
                 = (WH_SHE_ERC_GENERAL_ERROR,
                    g\<lparr> hsmSheSbState := WOLFHSM_SHE_SB_FAILURE \<rparr>, server, packet, sz)"
        by (simp add: she_dispatch_simps)
      show ?thesis
        using HandleSheRequest_open[OF assms(1) secure_boot_finish_passes_gate d refl]
          ne False
        by simp
    qed
  qed
qed

text \<open>
  Witness for the amended C5: the same finished CMAC with the matching \<open>BOOT_MAC\<close>
  in the keystore ends in \<open>SUCCESS\<close> with \<open>rc = 0\<close>.
\<close>

theorem SecureBootFinish_outcomes_witness:
  "wh_Server_HandleSheRequest example_env finish_globals
     (Some (example_server (one_key_store 3 0 0 good_boot_mac)))
     WH_SHE_SECURE_BOOT_FINISH (Some empty_packet) (Some 0) =
     (WH_ERROR_OK, finish_globals\<lparr> hsmSheSbState := WOLFHSM_SHE_SB_SUCCESS \<rparr>,
      Some (example_server (one_key_store 3 0 0 good_boot_mac)),
      Some (empty_packet\<lparr> sheSecureBootFinishRes_status := WH_ERROR_OK, rc := WH_ERROR_OK \<rparr>),
      Some (WOLFHSM_PACKET_STUB_SIZE example_env
            + sizeof_res example_env WH_SHE_SECURE_BOOT_FINISH))"
  using SecureBootFinish_outcomes[of finish_globals example_env good_boot_mac
          "example_server (one_key_store 3 0 0 good_boot_mac)" WH_ERROR_OK
          "\<lparr> meta_id = MAKE_WOLFHSM_KEYID WOLFHSM_KEYTYPE_SHE 1 3, meta_len = 16,
             label_count = 0, label_flags = 0 \<rparr>" good_boot_mac 16 empty_packet 0]
  by (simp add: example_env_def finish_globals_def she_globals_init_def example_server_def
        one_key_store_def she_key_def ref_hsmReadKey_def toy_mac_def good_boot_mac_def)

text \<open>
  A \<open>SECURE_BOOT_UPDATE\<close> in the state \<open>UPDATE\<close> whose chunk takes the bytes
  received beyond \<open>bl_size\<close>, when the 32-bit sum does not wrap: the response is
  \<open>SEQUENCE_ERROR\<close> and the secure-boot state is reset.
\<close>

lemma SecureBootUpdate_exceed_resets:
  assumes uid: "hsmSheUidSet g \<noteq> 0"
    and st: "hsmSheSbState g = WOLFHSM_SHE_SB_UPDATE"
    and nowrap: "unat (hsmSheBlSizeReceived g) + unat (sheSecureBootUpdateReq_sz packet) < 2 ^ 32"
    and exceed: "unat (hsmSheBlSize g) <
                 unat (hsmSheBlSizeReceived g) + unat (sheSecureBootUpdateReq_sz packet)"
  shows "wh_Server_HandleSheRequest E g (Some server) WH_SHE_SECURE_BOOT_UPDATE
           (Some packet) (Some sz) =
         (WH_ERROR_OK,
          g\<lparr> hsmSheSbState := WOLFHSM_SHE_SB_INIT, hsmSheBlSize := 0,
             hsmSheBlSizeReceived := 0, hsmSheCmacKeyFound := 0 \<rparr>,
          Some server, Some (packet\<lparr> rc := WH_SHE_ERC_SEQUENCE_ERROR \<rparr>),
          Some (WOLFHSM_PACKET_STUB_SIZE E + sizeof_rc E))"
proof -
  have sum: "unat (hsmSheBlSizeReceived g + sheSecureBootUpdateReq_sz packet) =
             unat (hsmSheBlSizeReceived g) + unat (sheSecureBootUpdateReq_sz packet)"
    using nowrap unat_add_lem[of "hsmSheBlSizeReceived g" "sheSecureBootUpdateReq_sz packet"]
    by simp
  have gt: "hsmSheBlSize g < hsmSheBlSizeReceived g + sheSecureBootUpdateReq_sz packet"
    using exceed sum by (simp add: word_less_nat_alt)
  have d: "she_dispatch E WH_SHE_SECURE_BOOT_UPDATE g server packet sz =
           (WH_SHE_ERC_SEQUENCE_ERROR,
            g\<lparr> hsmSheBlSizeReceived :=
                 hsmSheBlSizeReceived g + sheSecureBootUpdateReq_sz packet \<rparr>,
            server, packet, sz)"
    using st gt by (simp add: she_dispatch_simps hsmSheSecureBootUpdate_def Let_def)
  show ?thesis
    using HandleSheRequest_open[OF uid secure_boot_update_passes_gate d refl]
    by simp
qed

text \<open>
  C6 at a failing input. The secure boot of an image of \<open>0xFFFFFFFF\<close> bytes has
  received \<open>0xFFFFFFF0\<close> bytes, and a well-formed \<open>SECURE_BOOT_UPDATE\<close> brings a
  chunk of \<open>0x20\<close> bytes: the bytes received, \<open>0x100000010\<close>, exceed \<open>bl_size\<close>.
  The 32-bit counter \<open>hsmSheBlSizeReceived\<close> wraps to \<open>0x10\<close>, the check
  \<open>hsmSheBlSizeReceived > hsmSheBlSize\<close> does not fire, and the request is answered
  with \<open>rc = 0\<close>; the state stays \<open>UPDATE\<close> and nothing is reset.
\<close>

theorem SecureBootUpdate_wraparound_accepted:
  "wh_Server_HandleSheRequest example_env update_globals (Some (example_server []))
     WH_SHE_SECURE_BOOT_UPDATE (Some update_packet) (Some 0) =
     (WH_ERROR_OK,
      update_globals\<lparr> hsmSheBlSizeReceived := 0x10,
                      sheCmac := (sheCmac update_globals)\<lparr> cmac_data := chunk32 \<rparr> \<rparr>,
      Some (example_server []),
      Some (update_packet\<lparr> sheSecureBootUpdateRes_status := WH_ERROR_OK, rc := WH_ERROR_OK \<rparr>),
      Some 72) \<and>
   unat (hsmSheBlSize update_globals)
     < unat (hsmSheBlSizeReceived update_globals)
       + unat (sheSecureBootUpdateReq_sz update_packet) \<and>
   length (sheSecureBootUpdateReq_in update_packet)
     = unat (sheSecureBootUpdateReq_sz update_packet)"
proof -
  have uid: "hsmSheUidSet update_globals \<noteq> 0"
    by (simp add: update_globals_def she_globals_init_def)
  have d: "she_dispatch example_env WH_SHE_SECURE_BOOT_UPDATE update_globals
             (example_server []) update_packet 0
           = (WH_ERROR_OK,
              update_globals\<lparr> hsmSheBlSizeReceived := 0x10,
                      sheCmac := (sheCmac update_globals)\<lparr> cmac_data := chunk32 \<rparr> \<rparr>,
              example_server [],
              update_packet\<lparr> sheSecureBootUpdateRes_status := WH_ERROR_OK \<rparr>, 72)"
    by (simp add: she_dispatch_simps hsmSheSecureBootUpdate_def Let_def example_env_def
          update_globals_def she_globals_init_def update_packet_def empty_packet_def
          cmac_update_def chunk32_def)
  show ?thesis
    using HandleSheRequest_open[OF uid secure_boot_update_passes_gate d refl]
    by (simp add: update_globals_def she_globals_init_def update_packet_def empty_packet_def
          chunk32_def)
qed

section \<open>Theorems: AES-MP16\<close>

text \<open>
  The padded input of the spec, block by block: a last block of fewer than 16 bytes
  is the one block that is padded, and a longer input gives its first 16 bytes and
  the blocks of the rest.
\<close>

lemma blocks16_nonempty: "xs \<noteq> [] \<Longrightarrow> blocks16 xs = take 16 xs # blocks16 (drop 16 xs)"
  by (cases xs) simp_all

lemma zero_pad16_short:
  "0 < length xs \<Longrightarrow> length xs < 16 \<Longrightarrow> zero_pad16 xs = xs @ replicate (16 - length xs) 0"
  by (simp add: zero_pad16_def)

lemma zero_pad16_long:
  "16 \<le> length xs \<Longrightarrow> zero_pad16 xs = take 16 xs @ zero_pad16 (drop 16 xs)"
proof -
  assume a: "16 \<le> length xs"
  have "(length xs - 16) mod 16 = length xs mod 16"
    using a by (metis le_mod_geq mod_mod_trivial mod_if) 
  then show ?thesis
    by (simp add: zero_pad16_def)
qed

lemma blocks16_pad_short:
  "0 < length xs \<Longrightarrow> length xs < 16 \<Longrightarrow>
   blocks16 (zero_pad16 xs) = [xs @ replicate (16 - length xs) 0]"
  by (cases xs) (simp_all add: zero_pad16_short)

lemma blocks16_pad_long:
  assumes "16 \<le> length xs"
  shows "blocks16 (zero_pad16 xs) = take 16 xs # blocks16 (zero_pad16 (drop 16 xs))"
proof -
  have ne: "zero_pad16 xs \<noteq> []" using assms by (auto simp: zero_pad16_def)
  have "take 16 (zero_pad16 xs) = take 16 xs" "drop 16 (zero_pad16 xs) = zero_pad16 (drop 16 xs)"
    using assms by (simp_all add: zero_pad16_long)
  then show ?thesis using blocks16_nonempty[OF ne] by simp
qed

lemma blocks16_pad_nil: "blocks16 (zero_pad16 []) = []"
  by (simp add: zero_pad16_def)

lemma AesMp16_loop_spec:
  "(\<forall>k p. fst (wc_AesEncryptDirect E k p) = WH_ERROR_OK) \<Longrightarrow>
   (\<forall>k. wc_AesSetKeyDirect E k AES_ENCRYPTION = WH_ERROR_OK) \<Longrightarrow>
   mz = key \<Longrightarrow> 0 \<le> i \<Longrightarrow> nat inSz \<le> length inp \<Longrightarrow> inSz \<le> 2147483632 \<Longrightarrow>
   AesMp16_loop E inp inSz i out mz key =
     Some (WH_ERROR_OK,
      if i < inSz
      then mp_chain (\<lambda>k p. snd (wc_AesEncryptDirect E k p)) mz
             (blocks16 (zero_pad16 (drop (nat i) (take (nat inSz) inp))))
      else out)"
proof (induction E inp inSz i out mz key rule: AesMp16_loop.induct)
  case (1 E inp inSz i out messageZero key)
  let ?aes = "\<lambda>k p. snd (wc_AesEncryptDirect E k p)"
  let ?xs = "drop (nat i) (take (nat inSz) inp)"
  have enc: "\<And>k p. fst (wc_AesEncryptDirect E k p) = WH_ERROR_OK" using 1(2) by simp
  have setk: "\<And>k. wc_AesSetKeyDirect E k AES_ENCRYPTION = WH_ERROR_OK" using 1(3) by simp
  note mz = 1(4) and i0 = 1(5) and ln = 1(6) and bound = 1(7)
  show ?case
  proof (cases "i < inSz")
    case False
    then show ?thesis by simp
  next
    case lt: True
    have no_ovf: "\<not> INT_MAX < i + 16"
      using lt bound by (simp add: INT_MAX_def)
    have len: "length ?xs = nat (inSz - i)"
      using i0 ln lt by simp
    show ?thesis
    proof (cases "inSz - i < 16")
      case short: True
      let ?B = "?xs @ replicate (16 - length ?xs) 0"
      have pad: "take (nat (inSz - i)) (drop (nat i) inp) = ?xs"
        using i0 ln lt by (simp add: take_drop nat_diff_distrib)
      have bl: "blocks16 (zero_pad16 ?xs) = [?B]"
        using len lt short by (intro blocks16_pad_short) simp_all
      have nxt: "\<not> i + 16 < inSz" using short by simp
      let ?o1 = "map2 (XOR) (map2 (XOR) (?aes key ?B) ?B) key"
      have rec: "AesMp16_loop E inp inSz (i + 16) ?o1 ?o1 ?o1 = Some (WH_ERROR_OK, ?o1)"
        using nxt by simp
      have len': "min (length inp) (nat inSz) - nat i = nat (inSz - i)"
        using len by simp
      have step: "AesMp16_loop E inp inSz i out messageZero key
                  = AesMp16_loop E inp inSz (i + 16) ?o1 ?o1 ?o1"
        using lt short no_ovf
        by (subst AesMp16_loop.simps)
           (simp add: Let_def AES_BLOCK_SIZE_def enc setk mz pad len')
      show ?thesis
        using lt by (subst step, subst rec) (simp add: bl mz)
    next
      case long: False
      let ?B = "take 16 ?xs"
      have ge: "16 + nat i \<le> nat inSz" using i0 long by linarith
      have pad: "take 16 (drop (nat i) inp) = ?B"
        using ge ln by (simp add: take_drop min_def)
      have bl: "blocks16 (zero_pad16 ?xs) = ?B # blocks16 (zero_pad16 (drop 16 ?xs))"
        using len long by (intro blocks16_pad_long) simp
      let ?o1 = "map2 (XOR) (map2 (XOR) (?aes key ?B) ?B) key"
      have d: "drop 16 ?xs = drop (nat (i + 16)) (take (nat inSz) inp)"
        using i0 by (simp add: nat_add_distrib add.commute)
      have step: "AesMp16_loop E inp inSz i out messageZero key
                  = AesMp16_loop E inp inSz (i + 16) ?o1 ?o1 ?o1"
        using lt long no_ovf
        by (subst AesMp16_loop.simps)
           (simp add: Let_def AES_BLOCK_SIZE_def enc setk mz pad)
      have ih: "AesMp16_loop E inp inSz (i + 16) ?o1 ?o1 ?o1 =
           Some (WH_ERROR_OK,
            if i + 16 < inSz
            then mp_chain ?aes ?o1 (blocks16 (zero_pad16 (drop (nat (i + 16)) (take (nat inSz) inp))))
            else ?o1)"
        using 1(1)[OF lt refl refl refl refl _ _ 1(2) 1(3) refl _ _ bound] i0 ln lt long no_ovf
        by (simp add: AES_BLOCK_SIZE_def pad enc setk mz)
      have tail: "\<not> i + 16 < inSz \<Longrightarrow> drop 16 ?xs = []"
        using len by simp
      show ?thesis
      proof (cases "i + 16 < inSz")
        case True
        then show ?thesis using lt by (subst step, subst ih) (simp add: bl mz d[symmetric])
      next
        case False
        then show ?thesis using lt tail
          by (subst step, subst ih) (simp add: bl mz blocks16_pad_nil)
      qed
    qed
  qed
qed

text \<open>
  With a provider whose calls succeed, and a length of at most \<open>2^31 - 16\<close>, the loop
  ends with the code 0.
\<close>

lemma AesMp16_loop_ok:
  "(\<forall>k p. fst (wc_AesEncryptDirect E k p) = WH_ERROR_OK) \<Longrightarrow>
   (\<forall>k. wc_AesSetKeyDirect E k AES_ENCRYPTION = WH_ERROR_OK) \<Longrightarrow>
   inSz \<le> 2147483632 \<Longrightarrow>
   map_option fst (AesMp16_loop E inp inSz i out mz key) = Some WH_ERROR_OK"
proof (induction E inp inSz i out mz key rule: AesMp16_loop.induct)
  case (1 E inp inSz i out messageZero key)
  have enc: "\<And>k p. fst (wc_AesEncryptDirect E k p) = WH_ERROR_OK" using 1(2) by simp
  have setk: "\<And>k. wc_AesSetKeyDirect E k AES_ENCRYPTION = WH_ERROR_OK" using 1(3) by simp
  show ?case
  proof (cases "i < inSz")
    case False
    then show ?thesis by simp
  next
    case True
    have no_ovf: "\<not> INT_MAX < i + int AES_BLOCK_SIZE"
      using True 1(4) by (simp add: INT_MAX_def AES_BLOCK_SIZE_def)
    show ?thesis
      using True no_ovf 1(1)[OF True refl refl refl refl _ no_ovf 1(2) 1(3) 1(4)]
      by (subst AesMp16_loop.simps) (simp add: Let_def enc setk)
  qed
qed

lemma blocks16_pad_lengths:
  "length xs mod 16 = 0 \<Longrightarrow> B \<in> set (blocks16 xs) \<Longrightarrow> length B = 16"
proof (induction xs arbitrary: B rule: blocks16.induct)
  case 1
  then show ?case by simp
next
  case (2 x xs)
  let ?ys = "x # xs"
  have ge: "16 \<le> length ?ys" using "2.prems"(1) by (cases "length ?ys < 16") auto
  have m: "length (drop 16 ?ys) mod 16 = 0"
    using "2.prems"(1) ge by (metis length_drop mod_0 le_mod_geq)
  from "2.prems"(2) consider "B = take 16 ?ys" | "B \<in> set (blocks16 (drop 16 ?ys))"
    by auto
  then show ?case
  proof cases
    case 1
    then show ?thesis using ge by simp
  next
    case 2
    then show ?thesis using "2.IH"[OF m] by simp
  qed
qed

lemma zero_pad16_mod: "length (zero_pad16 M) mod 16 = 0"
  unfolding zero_pad16_def by (simp add: mod_simps) presburger

lemma mp_chain_length:
  "length H = 16 \<Longrightarrow> (\<forall>B \<in> set Bs. length B = 16) \<Longrightarrow>
   (\<forall>k p. length k = 16 \<and> length p = 16 \<longrightarrow> length (aes k p) = 16) \<Longrightarrow>
   length (mp_chain aes H Bs) = 16"
  by (induction Bs arbitrary: H) simp_all

lemma AES_MP16_spec_length:
  "(\<forall>k p. length k = 16 \<and> length p = 16 \<longrightarrow> length (aes k p) = 16) \<Longrightarrow>
   length (AES_MP16_spec aes M) = 16"
  unfolding AES_MP16_spec_def
  by (rule mp_chain_length) (simp_all add: blocks16_pad_lengths[OF zero_pad16_mod])

lemma sint_small: "unat (w :: u32) \<le> 2147483632 \<Longrightarrow> sint w = int (unat w)"
proof -
  assume a: "unat w \<le> 2147483632"
  have "int (unat w) \<le> 2147483632" using a by linarith
  then have u: "uint w < 2 ^ 31" by simp
  have nn: "0 \<le> uint w" by simp
  have "sint w = signed_take_bit 31 (uint w)" by (simp add: sint_uint)
  also have "\<dots> = uint w"
  proof (rule signed_take_bit_int_eq_self)
    have "- (2 ^ 31) \<le> (0::int)" by simp
    then show "- (2 ^ 31) \<le> uint w" using nn by (rule order_trans)
    show "uint w < 2 ^ 31" by (rule u)
  qed
  finally show ?thesis by simp
qed

lemma unat_pos_int: "(w :: u32) \<noteq> 0 \<Longrightarrow> 0 < int (unat w)"
proof -
  assume "w \<noteq> 0"
  then have "0 < unat w" by (simp add: unat_gt_0)
  then show ?thesis by linarith
qed

lemma replicate_numeral_unroll:
  "replicate (numeral n) x = x # replicate (pred_numeral n) x"
  by (simp add: numeral_eq_Suc)

text \<open>
  The lengths from \<open>2^31 - 15\<close> to \<open>2^31 - 1\<close>: with a provider whose calls
  succeed the loop reaches the index \<open>2^31 - 16\<close>, the next addition overflows, and
  the call has no defined result.
\<close>

lemma AesMp16_loop_overflow:
  "(\<forall>k p. fst (wc_AesEncryptDirect E k p) = WH_ERROR_OK) \<Longrightarrow>
   (\<forall>k. wc_AesSetKeyDirect E k AES_ENCRYPTION = WH_ERROR_OK) \<Longrightarrow>
   2147483632 < inSz \<Longrightarrow> 0 \<le> i \<Longrightarrow> i \<le> 2147483632 \<Longrightarrow> i mod 16 = 0 \<Longrightarrow>
   AesMp16_loop E inp inSz i out mz key = None"
proof (induction E inp inSz i out mz key rule: AesMp16_loop.induct)
  case (1 E inp inSz i out messageZero key)
  have enc: "\<And>k p. fst (wc_AesEncryptDirect E k p) = WH_ERROR_OK" using 1(2) by simp
  have setk: "\<And>k. wc_AesSetKeyDirect E k AES_ENCRYPTION = WH_ERROR_OK" using 1(3) by simp
  have lt: "i < inSz" using 1(4) 1(6) by linarith
  show ?case
  proof (cases "INT_MAX < i + int AES_BLOCK_SIZE")
    case True
    then show ?thesis using lt
      by (subst AesMp16_loop.simps) (simp add: Let_def enc setk)
  next
    case False
    then have le: "i + 16 \<le> 2147483647" by (simp add: INT_MAX_def AES_BLOCK_SIZE_def)
    have m: "(i + 16) mod 16 = 0" using 1(7) by presburger
    have le2: "i + 16 \<le> 2147483632" using le m by presburger
    have i0: "0 \<le> i + 16" using 1(5) by simp
    show ?thesis
      using lt False 1(1)[OF lt refl refl refl refl _ False 1(2) 1(3) 1(4)] i0 le2 m
      by (subst AesMp16_loop.simps) (simp add: Let_def enc setk AES_BLOCK_SIZE_def)
  qed
qed

lemma sint_nonneg: "unat (w :: u32) < 2147483648 \<Longrightarrow> sint w = int (unat w)"
proof -
  assume a: "unat w < 2147483648"
  have "int (unat w) < 2147483648" using a by linarith
  then have u: "uint w < 2 ^ 31" by simp
  have nn: "0 \<le> uint w" by simp
  have "sint w = signed_take_bit 31 (uint w)" by (simp add: sint_uint)
  also have "\<dots> = uint w"
  proof (rule signed_take_bit_int_eq_self)
    have "- (2 ^ 31) \<le> (0::int)" by simp
    then show "- (2 ^ 31) \<le> uint w" using nn by (rule order_trans)
    show "uint w < 2 ^ 31" by (rule u)
  qed
  finally show ?thesis by simp
qed

lemma wh_AesMp16_index_overflow:
  assumes "wc_AesInit E = WH_ERROR_OK"
    and "\<forall>k. wc_AesSetKeyDirect E k AES_ENCRYPTION = WH_ERROR_OK"
    and "\<forall>k p. fst (wc_AesEncryptDirect E k p) = WH_ERROR_OK"
    and "2147483632 < unat inSz" and "unat inSz < 2147483648"
  shows "wh_AesMp16 E (Some srv) (Some inb) inSz (Some outb) = None"
proof -
  have s: "sint inSz = int (unat inSz)" using assms(5) by (rule sint_nonneg)
  have "int 2147483632 < int (unat inSz)" using assms(4) by linarith
  then have big: "2147483632 < sint inSz" by (simp only: s)
  have nz: "inSz \<noteq> 0" using assms(4) by auto
  have L: "AesMp16_loop E inb (sint inSz) 0 outb (replicate WOLFHSM_SHE_KEY_SZ 0)
             (replicate WOLFHSM_SHE_KEY_SZ 0) = None"
    by (rule AesMp16_loop_overflow[OF assms(3) assms(2) big]) simp_all
  show ?thesis using assms(1,2) nz
    by (simp add: wh_AesMp16_def Let_def L del: AesMp16_loop.simps)
qed

text \<open>
  C4, with the bound that the code needs. \<open>wh_AesMp16\<close> compares the \<open>int\<close> index
  with \<open>(int)inSz\<close>. For a length \<open>n\<close> with \<open>0 < n \<le> 2^31 - 16\<close>, an input buffer
  of at least \<open>n\<close> bytes, and a provider whose \<open>wc_AesInit\<close>, \<open>wc_AesSetKeyDirect\<close>
  and \<open>wc_AesEncryptDirect\<close> return 0 and whose block encryption gives 16 bytes from
  a 16-byte key and block, the call returns 0 and \<open>out\<close> holds \<open>H_last\<close> of the
  spec: the input zero-padded to a multiple of 16 bytes, \<open>H_0 = 0^128\<close> and
  \<open>H_i = AES_Encrypt(key = H_{i-1}, plaintext = B_i) XOR B_i XOR H_{i-1}\<close>. The value
  has 16 bytes and depends on the input and the provider only (so the function is
  deterministic). With such a provider, for every length of at most \<open>2^31 - 16\<close>
  (zero included) and an input buffer, if there is one, of at least that length, the
  call returns a code, and the code is \<open>WH_ERROR_BADARGS\<close> exactly when \<open>server\<close>,
  \<open>in\<close> or \<open>out\<close> is null or the length is zero.
\<close>

theorem wh_AesMp16_refines_spec:
  assumes "wc_AesInit E = WH_ERROR_OK"
    and "\<forall>k. wc_AesSetKeyDirect E k AES_ENCRYPTION = WH_ERROR_OK"
    and "\<forall>k p. fst (wc_AesEncryptDirect E k p) = WH_ERROR_OK"
    and "\<forall>k p. length k = 16 \<and> length p = 16 \<longrightarrow>
               length (snd (wc_AesEncryptDirect E k p)) = 16"
    and "inSz \<noteq> 0" and "unat inSz \<le> 2147483632" and "unat inSz \<le> length inb"
    and "unat sz \<le> 2147483632" and "\<forall>b. inp = Some b \<longrightarrow> unat sz \<le> length b"
  shows "wh_AesMp16 E (Some srv) (Some inb) inSz (Some outb) =
           Some (WH_ERROR_OK,
             Some (AES_MP16_spec (\<lambda>k p. snd (wc_AesEncryptDirect E k p)) (take (unat inSz) inb)))
         \<and> length (AES_MP16_spec (\<lambda>k p. snd (wc_AesEncryptDirect E k p))
                     (take (unat inSz) inb)) = 16
         \<and> wh_AesMp16 E server inp sz out \<noteq> None
         \<and> (map_option fst (wh_AesMp16 E server inp sz out) = Some WH_ERROR_BADARGS \<longleftrightarrow>
              server = None \<or> inp = None \<or> sz = 0 \<or> out = None)"
proof (intro conjI)
  have s: "sint inSz = int (unat inSz)" using assms(6) by (rule sint_small)
  have pos: "0 < sint inSz" using unat_pos_int[OF assms(5)] by (simp only: s)
  have "int (unat inSz) \<le> 2147483632" using assms(6) by linarith
  then have b: "sint inSz \<le> 2147483632" by (simp only: s)
  have n: "nat (sint inSz) \<le> length inb" using assms(7) by (simp only: s nat_int)
  have L: "AesMp16_loop E inb (sint inSz) 0 outb (replicate 16 0) (replicate 16 0) =
          Some (WH_ERROR_OK, mp_chain (\<lambda>k p. snd (wc_AesEncryptDirect E k p)) (replicate 16 0)
             (blocks16 (zero_pad16 (take (unat inSz) inb))))"
    using AesMp16_loop_spec[OF assms(3) assms(2) refl order_refl n b, of outb "replicate 16 0"] pos
    by (simp add: s del: AesMp16_loop.simps)
  show "wh_AesMp16 E (Some srv) (Some inb) inSz (Some outb) =
           Some (WH_ERROR_OK,
             Some (AES_MP16_spec (\<lambda>k p. snd (wc_AesEncryptDirect E k p)) (take (unat inSz) inb)))"
    using assms(1,2,5)
    by (simp add: wh_AesMp16_def AES_MP16_spec_def WOLFHSM_SHE_KEY_SZ_def Let_def L
             del: AesMp16_loop.simps)
  show "length (AES_MP16_spec (\<lambda>k p. snd (wc_AesEncryptDirect E k p))
                     (take (unat inSz) inb)) = 16"
    using assms(4) by (rule AES_MP16_spec_length)
  have "int (unat sz) \<le> 2147483632" using assms(8) by linarith
  then have b2: "sint sz \<le> 2147483632" by (simp only: sint_small[OF assms(8)])
  have ok: "\<exists>o'. AesMp16_loop E b (sint sz) 0 ob mz mz = Some (WH_ERROR_OK, o')" for b ob mz
    using AesMp16_loop_ok[OF assms(3) assms(2) b2, of b 0 ob mz mz]
    by (cases "AesMp16_loop E b (sint sz) 0 ob mz mz") (auto simp del: AesMp16_loop.simps)
  have both: "wh_AesMp16 E server inp sz out \<noteq> None \<and>
              (map_option fst (wh_AesMp16 E server inp sz out) = Some WH_ERROR_BADARGS \<longleftrightarrow>
               server = None \<or> inp = None \<or> sz = 0 \<or> out = None)"
  proof (cases server)
    case None
    then show ?thesis by (simp add: wh_AesMp16_def)
  next
    case srv: (Some sv)
    show ?thesis
    proof (cases inp)
      case None
      then show ?thesis using srv by (simp add: wh_AesMp16_def)
    next
      case ib: (Some b)
      show ?thesis
      proof (cases out)
        case None
        then show ?thesis using srv ib by (simp add: wh_AesMp16_def)
      next
        case ob: (Some o1)
        show ?thesis
        proof (cases "sz = 0")
          case True
          then show ?thesis using srv ib ob by (simp add: wh_AesMp16_def)
        next
          case False
          obtain o' where
            "AesMp16_loop E b (sint sz) 0 o1 (replicate WOLFHSM_SHE_KEY_SZ 0)
               (replicate WOLFHSM_SHE_KEY_SZ 0) = Some (WH_ERROR_OK, o')"
            using ok by blast
          then show ?thesis using srv ib ob False assms(1,2)
            by (simp add: wh_AesMp16_def Let_def del: AesMp16_loop.simps)
        qed
      qed
    qed
  qed
  show "wh_AesMp16 E server inp sz out \<noteq> None" using both by (rule conjunct1)
  show "map_option fst (wh_AesMp16 E server inp sz out) = Some WH_ERROR_BADARGS \<longleftrightarrow>
              server = None \<or> inp = None \<or> sz = 0 \<or> out = None"
    using both by (rule conjunct2)
qed

text \<open>
  The theorem at an input of 20 bytes, two blocks of which the second is padded, and
  at a zero length and a null input.
\<close>

theorem wh_AesMp16_refines_spec_witness:
  "wh_AesMp16 mp_env (Some (example_server []))
      (Some [1, 2, 3, 4, 5, 6, 7, 8, 9, 10, 11, 12, 13, 14, 15, 16, 17, 18, 19, 20]) 20
      (Some [0, 0, 0, 0, 0, 0, 0, 0, 0, 0, 0, 0, 0, 0, 0, 0]) =
     Some (WH_ERROR_OK, Some [10, 6, 54, 2, 4, 2, 16, 2, 4, 2, 8, 2, 4, 2, 32, 2]) \<and>
   map_option fst (wh_AesMp16 mp_env (Some (example_server [])) (Some [1, 2, 3]) 0 (Some [])) =
     Some WH_ERROR_BADARGS \<and>
   map_option fst (wh_AesMp16 mp_env (Some (example_server [])) None 3 (Some [])) =
     Some WH_ERROR_BADARGS \<and>
   map_option fst (wh_AesMp16 mp_env (Some (example_server [])) (Some [1, 2, 3]) 3 (Some [])) \<noteq>
     Some WH_ERROR_BADARGS"
  using wh_AesMp16_refines_spec
          [of mp_env 20 "[1, 2, 3, 4, 5, 6, 7, 8, 9, 10, 11, 12, 13, 14, 15, 16, 17, 18, 19, 20]"
              0 "Some [1, 2, 3]"
              "example_server []" "[0, 0, 0, 0, 0, 0, 0, 0, 0, 0, 0, 0, 0, 0, 0, 0]"
              "Some (example_server [])" "Some []"]
        wh_AesMp16_refines_spec
          [of mp_env 20 "[1, 2, 3, 4, 5, 6, 7, 8, 9, 10, 11, 12, 13, 14, 15, 16, 17, 18, 19, 20]"
              3 None
              "example_server []" "[0, 0, 0, 0, 0, 0, 0, 0, 0, 0, 0, 0, 0, 0, 0, 0]"
              "Some (example_server [])" "Some []"]
        wh_AesMp16_refines_spec
          [of mp_env 20 "[1, 2, 3, 4, 5, 6, 7, 8, 9, 10, 11, 12, 13, 14, 15, 16, 17, 18, 19, 20]"
              3 "Some [1, 2, 3]"
              "example_server []" "[0, 0, 0, 0, 0, 0, 0, 0, 0, 0, 0, 0, 0, 0, 0, 0]"
              "Some (example_server [])" "Some []"]
  by (simp add: mp_env_def example_env_def mix_block_def AES_MP16_spec_def zero_pad16_def
                replicate_numeral_unroll)

text \<open>
  C4 as stated fails at two inputs. With a provider whose \<open>wc_AesInit\<close> fails, a
  call on a non-null input of 3 bytes returns the provider's code, neither 0 nor
  \<open>WH_ERROR_BADARGS\<close>, and leaves \<open>out\<close> as it was. At a length of \<open>2^31\<close> bytes
  \<open>(int)inSz\<close> is negative, the loop is not entered, and the call returns 0 with
  \<open>out\<close> as it was: two calls on the same input leave two different values in
  \<open>out\<close>, so \<open>out\<close> is not \<open>H_last\<close> of the input.
\<close>

theorem wh_AesMp16_provider_failure_and_int_cast:
  "wh_AesMp16 failing_aes_env (Some (example_server [])) (Some [1, 2, 3]) 3
      (Some [170, 170, 170, 170, 170, 170, 170, 170, 170, 170, 170, 170, 170, 170, 170, 170]) =
     Some (RC_OTHER (- 1),
      Some [170, 170, 170, 170, 170, 170, 170, 170, 170, 170, 170, 170, 170, 170, 170, 170]) \<and>
   wh_AesMp16 mp_env (Some (example_server [])) (Some (replicate 2147483648 0)) 0x80000000
      (Some [170, 170, 170, 170, 170, 170, 170, 170, 170, 170, 170, 170, 170, 170, 170, 170]) =
     Some (WH_ERROR_OK,
      Some [170, 170, 170, 170, 170, 170, 170, 170, 170, 170, 170, 170, 170, 170, 170, 170]) \<and>
   wh_AesMp16 mp_env (Some (example_server [])) (Some (replicate 2147483648 0)) 0x80000000
      (Some [85, 85, 85, 85, 85, 85, 85, 85, 85, 85, 85, 85, 85, 85, 85, 85]) =
     Some (WH_ERROR_OK,
      Some [85, 85, 85, 85, 85, 85, 85, 85, 85, 85, 85, 85, 85, 85, 85, 85]) \<and>
   length (replicate 2147483648 (0 :: u8)) = unat (0x80000000 :: u32)"
  by (simp add: wh_AesMp16_def mp_env_def failing_aes_env_def example_env_def Let_def)

section \<open>Theorems: LOAD_KEY\<close>

text \<open>
  On a big-endian host the value that the counter check of \<open>hsmSheLoadKey\<close> takes
  from \<open>M2\<close> is the counter of the spec.
\<close>

lemma counter_check_big_endian:
  "host_big_endian E \<Longrightarrow> ntohl E (drop_bit 4 (load_u32 E m2)) = she_counter m2"
  by (simp add: ntohl_def load_u32_def she_counter_def)

text \<open>
  \<open>XMEMEQZERO\<close> does not depend on the first byte of the buffer.
\<close>

lemma XMEMEQZERO_skips_first_byte:
  "XMEMEQZERO (x # xs) n = XMEMEQZERO (y # xs) n"
proof (induction "x # xs" n rule: XMEMEQZERO.induct)
  case (1 sz)
  show ?case
  proof (cases "sz > 1")
    case False
    then show ?thesis by (simp add: XMEMEQZERO.simps[of _ sz])
  next
    case True
    then have "unat (sz - 1) \<noteq> 0"
      by (metis less_irrefl unat_eq_zero diff_eq_eq add_0 )
    then obtain k where k: "unat (sz - 1) = Suc k" by (cases "unat (sz - 1)") auto
    have nth: "(x # xs) ! unat (sz - 1) = (y # xs) ! unat (sz - 1)" by (simp add: k)
    show ?thesis
    proof (cases "(x # xs) ! unat (sz - 1) \<noteq> 0")
      case nz: True
      then show ?thesis using True nth
        by (simp add: XMEMEQZERO.simps[of _ sz])
    next
      case z: False
      then show ?thesis using True nth 1[OF True]
        by (simp add: XMEMEQZERO.simps[of _ sz])
    qed
  qed
qed

text \<open>
  C1 at a failing input, on a little-endian host. The first \<open>LOAD_KEY\<close> fills the
  empty slot 4 with \<open>key_a\<close> and the counter 256 (\<open>M2\<close> starts \<open>00 00 10 00\<close>);
  the second carries the counter 16 (\<open>M2\<close> starts \<open>00 00 01 00\<close>), which does not
  exceed 256. The code shifts the word that it loads in host order and swaps the
  bytes afterwards: it compares \<open>ntohl(0x00010000 >> 4) = 0x100000\<close> with
  \<open>ntohl(0x10000) = 0x100\<close>, finds the new value greater, returns 0 and replaces
  the key of the slot by \<open>key_b\<close>; through the dispatcher the response has
  \<open>rc = NO_ERROR\<close>.
\<close>

theorem LoadKey_counter_rollback_accepted:
  "she_counter m2_counter_256 = 256 \<and>
   fst first_load = WH_ERROR_OK \<and>
   hsmReadKey example_env (keystore (fst (snd (snd first_load))))
     (MAKE_WOLFHSM_KEYID WOLFHSM_KEYTYPE_SHE 1 4) 16 =
     (WH_ERROR_OK,
      \<lparr> meta_id = MAKE_WOLFHSM_KEYID WOLFHSM_KEYTYPE_SHE 1 4, meta_len = 16,
        label_count = 0x10000, label_flags = 0 \<rparr>, key_a, 16) \<and>
   she_counter m2_counter_16 = 16 \<and>
   ntohl example_env (drop_bit 4 (load_u32 example_env m2_counter_16)) = 0x100000 \<and>
   ntohl example_env 0x10000 = 0x100 \<and>
   fst second_load = WH_ERROR_OK \<and>
   hsmReadKey example_env (keystore (fst (snd (snd second_load))))
     (MAKE_WOLFHSM_KEYID WOLFHSM_KEYTYPE_SHE 1 4) 16 =
     (WH_ERROR_OK,
      \<lparr> meta_id = MAKE_WOLFHSM_KEYID WOLFHSM_KEYTYPE_SHE 1 4, meta_len = 16,
        label_count = 0x1000, label_flags = 0 \<rparr>, key_b, 16) \<and>
   rc (the (fst (snd (snd (snd
     (wh_Server_HandleSheRequest example_env (fst (snd first_load))
        (Some (fst (snd (snd first_load)))) WH_SHE_LOAD_KEY
        (Some (load_key_packet load_key_m1 m2_counter_16 load_key_m1)) (Some 0))))))) =
     WOLFHSM_SHE_ERC_NO_ERROR"
  by code_simp

text \<open>
  C3 at a failing input. The first 15 bytes of \<open>M1\<close> are \<open>07 00 ... 00\<close>: not all
  zero, and not the UID of the server. \<open>XMEMEQZERO\<close> stops at \<open>size = 1\<close> and never
  looks at \<open>buffer[0]\<close>, so it reports the 15 bytes as zero; the slot has the flag
  \<open>WILDCARD\<close>, the comparison with the UID of the server is skipped, and the request
  is accepted: the call returns 0 and the key of the slot is replaced by \<open>key_b\<close>.
\<close>

theorem LoadKey_foreign_uid_accepted:
  "XMEMEQZERO (messageOne (foreign_m1 @ m2_counter_1 @ foreign_m1)) 15 = 1 \<and>
   take 15 foreign_m1 \<noteq> [0, 0, 0, 0, 0, 0, 0, 0, 0, 0, 0, 0, 0, 0, 0] \<and>
   take 15 foreign_m1 \<noteq> sheUid (example_server wildcard_store) \<and>
   fst wildcard_load = WH_ERROR_OK \<and>
   hsmReadKey example_env (keystore (fst (snd (snd wildcard_load))))
     (MAKE_WOLFHSM_KEYID WOLFHSM_KEYTYPE_SHE 1 4) 16 =
     (WH_ERROR_OK,
      \<lparr> meta_id = MAKE_WOLFHSM_KEYID WOLFHSM_KEYTYPE_SHE 1 4, meta_len = 16,
        label_count = 0x1000000, label_flags = 0 \<rparr>, key_b, 16)"
  by code_simp

end
